theory Spec2Isabelle
  imports Main "HOL-Library.Word" "HOL-Library.Signed_Division" "HOL-Library.Monad_Syntax"
begin

section \<open>The log line encoder of common/vb\_log.c\<close>

text \<open>
  The file builds one text line per logging call in a heap block and hands it to syslog.
  The model keeps the blocks: a block or an array is the list of its bytes, every write
  into one is checked against its size, and a write outside it (or a read through a null
  pointer) makes the call \<open>None\<close>. A C string is read out of a block up to its first
  NUL byte.
\<close>

subsection \<open>Bytes, C strings and checked writes\<close>

definition NUL :: char where
  "NUL = CHR 0x00"

text \<open>The C string that starts at the beginning of a byte sequence. A caller's string
  argument is the sequence of bytes behind the pointer, with a NUL after its last byte.\<close>

definition cstr :: "char list \<Rightarrow> string" where
  "cstr m = takeWhile (\<lambda>c. c \<noteq> NUL) m"

text \<open>\<open>calloc\<close> either fails or gives a block of zero bytes.\<close>

definition calloc :: "bool \<Rightarrow> nat \<Rightarrow> nat \<Rightarrow> char list option" where
  "calloc ok n sz = (if ok then Some (replicate (n * sz) NUL) else None)"

text \<open>An automatic array. C gives it no initial value; each array of this file is written
  over its whole length before it is read, and the model starts it from zero bytes.\<close>

definition auto_array :: "nat \<Rightarrow> char list" where
  "auto_array n = replicate n NUL"

definition mem_write :: "char list \<Rightarrow> nat \<Rightarrow> char list \<Rightarrow> char list option" where
  "mem_write m off bs =
     (if off + length bs \<le> length m
      then Some (take off m @ bs @ drop (off + length bs) m)
      else None)"

text \<open>\<open>m[i] = c\<close>\<close>

definition poke :: "char list \<Rightarrow> nat \<Rightarrow> char \<Rightarrow> char list option" where
  "poke m i c = mem_write m i [c]"

text \<open>\<open>strncpy(m + off, src, n)\<close>: the first \<open>n\<close> bytes of the string, and NUL bytes up
  to \<open>n\<close> when the string is shorter. It writes exactly \<open>n\<close> bytes and adds no terminator
  of its own.\<close>

definition strncpy_bytes :: "string \<Rightarrow> nat \<Rightarrow> char list" where
  "strncpy_bytes src n = take n (cstr src) @ replicate (n - length (cstr src)) NUL"

definition strncpy :: "char list \<Rightarrow> nat \<Rightarrow> string \<Rightarrow> nat \<Rightarrow> char list option" where
  "strncpy m off src n = mem_write m off (strncpy_bytes src n)"

text \<open>\<open>snprintf(m + off, n, fmt, ...)\<close>, where \<open>out\<close> is the text the format and its
  arguments expand to: at most \<open>n - 1\<close> bytes of it and a NUL; nothing when \<open>n\<close> is 0.
  \<open>vsnprintf\<close> is the same function.\<close>

definition snprintf_bytes :: "nat \<Rightarrow> string \<Rightarrow> char list" where
  "snprintf_bytes n out = (if n = 0 then [] else take (n - 1) out @ [NUL])"

definition snprintf :: "char list \<Rightarrow> nat \<Rightarrow> nat \<Rightarrow> string \<Rightarrow> char list option" where
  "snprintf m off n out = mem_write m off (snprintf_bytes n out)"

definition vsnprintf :: "char list \<Rightarrow> nat \<Rightarrow> nat \<Rightarrow> string \<Rightarrow> char list option" where
  "vsnprintf m off n out = snprintf m off n out"

subsection \<open>The conversions of printf that the formats of the file use\<close>

fun dec :: "nat \<Rightarrow> string" where
  "dec n = (if n < 10 then [char_of (48 + n)] else dec (n div 10) @ [char_of (48 + n mod 10)])"

declare dec.simps [simp del]

text \<open>\<open>%Ns\<close>: right justified in \<open>w\<close> columns, never cut.\<close>

definition fmt_s :: "nat \<Rightarrow> string \<Rightarrow> string" where
  "fmt_s w s = replicate (w - length s) CHR '' '' @ s"

text \<open>\<open>%-Ns\<close>: left justified in \<open>w\<close> columns, never cut.\<close>

definition fmt_ls :: "nat \<Rightarrow> string \<Rightarrow> string" where
  "fmt_ls w s = s @ replicate (w - length s) CHR '' ''"

text \<open>\<open>%0Nu\<close>\<close>

definition fmt_0u :: "nat \<Rightarrow> nat \<Rightarrow> string" where
  "fmt_0u w n = replicate (w - length (dec n)) CHR ''0'' @ dec n"

text \<open>\<open>%0Nd\<close>: the sign counts as a column and the zeros follow it.\<close>

definition fmt_0d :: "nat \<Rightarrow> int \<Rightarrow> string" where
  "fmt_0d w i =
     (if i < 0 then CHR ''-'' # replicate (w - 1 - length (dec (nat (- i)))) CHR ''0'' @ dec (nat (- i))
      else fmt_0u w (nat i))"

text \<open>\<open>%d\<close>\<close>

definition fmt_d :: "int \<Rightarrow> string" where
  "fmt_d i = (if i < 0 then CHR ''-'' # dec (nat (- i)) else dec (nat i))"

subsection \<open>Constants of the file\<close>

definition VB_LOG_MAX_MODE_LEN :: nat where "VB_LOG_MAX_MODE_LEN = 7"
definition VB_LOG_MAX_FILE_LEN :: nat where "VB_LOG_MAX_FILE_LEN = 30"
definition VB_LOG_MAX_LINENUM_LEN :: nat where "VB_LOG_MAX_LINENUM_LEN = 5"
definition VB_LOG_MAX_FUNC_LEN :: nat where "VB_LOG_MAX_FUNC_LEN = 40"
definition VB_LOG_MAX_EXTRA_LEN :: nat where "VB_LOG_MAX_EXTRA_LEN = 24"

definition VB_LOG_MAX_HDR_LEN :: nat where
  "VB_LOG_MAX_HDR_LEN =
     VB_LOG_MAX_FILE_LEN + VB_LOG_MAX_LINENUM_LEN + VB_LOG_MAX_FUNC_LEN + VB_LOG_MAX_MODE_LEN
     + VB_LOG_MAX_EXTRA_LEN"

text \<open>\<open>"[%7s][%30s][%5s][%40s][%02d:%02d:%02d %03dms]"\<close>\<close>

definition VB_LOG_FMT ::
  "string \<Rightarrow> string \<Rightarrow> string \<Rightarrow> string \<Rightarrow> int \<Rightarrow> int \<Rightarrow> int \<Rightarrow> int \<Rightarrow> string" where
  "VB_LOG_FMT mode_s file_s linenum_s func_s hour minute sec msec =
     ''['' @ fmt_s 7 mode_s @ '']['' @ fmt_s 30 file_s @ '']['' @ fmt_s 5 linenum_s @ '']['' @
     fmt_s 40 func_s @ '']['' @ fmt_0d 2 hour @ '':'' @ fmt_0d 2 minute @ '':'' @ fmt_0d 2 sec @
     '' '' @ fmt_0d 3 msec @ ''ms]''"

text \<open>What vb\_log.c takes from headers that are not part of the tree: the bound of the
  level enumeration (vb\_log.h), the size of a driver identifier (vb\_ea\_communication.h)
  and the name of a level (\<open>VbVerboseLevelToStr\<close>, vb\_util.h). They are parameters of the
  model. A level is the number of its enumerator.\<close>

record externs =
  VB_LOG_LAST :: nat
  VB_EA_DRIVER_ID_MAX_SIZE :: nat
  VbVerboseLevelToStr :: "nat \<Rightarrow> string"

definition VB_LOG_MAX_DRIVER_HDR_LEN :: "externs \<Rightarrow> nat" where
  "VB_LOG_MAX_DRIVER_HDR_LEN x = VB_EA_DRIVER_ID_MAX_SIZE x + 2"

definition VB_LOG_MAX_EXT_HDR_LEN :: "externs \<Rightarrow> nat" where
  "VB_LOG_MAX_EXT_HDR_LEN x = VB_LOG_MAX_HDR_LEN + VB_LOG_MAX_DRIVER_HDR_LEN x"

text \<open>\<open>"[%-20s]"\<close>\<close>

definition VB_LOG_DRIVER_ID_FMT :: "string \<Rightarrow> string" where
  "VB_LOG_DRIVER_ID_FMT driver_s = ''['' @ fmt_ls 20 driver_s @ '']''"

definition VB_LOG_MAX_LINE_LEN :: nat where "VB_LOG_MAX_LINE_LEN = 200"

definition VB_LOG_ENTRY_LEN :: nat where
  "VB_LOG_ENTRY_LEN = VB_LOG_MAX_HDR_LEN + VB_LOG_MAX_LINE_LEN"

definition VB_LOG_EXT_ENTRY_LEN :: "externs \<Rightarrow> nat" where
  "VB_LOG_EXT_ENTRY_LEN x = VB_LOG_MAX_EXT_HDR_LEN x + VB_LOG_MAX_LINE_LEN"

subsection \<open>What a call reads from the system\<close>

record tm =
  tm_hour :: int
  tm_min :: int
  tm_sec :: int

text \<open>The outcome of \<open>calloc\<close>, the result of \<open>localtime\<close> (\<open>None\<close> is the null pointer)
  and the \<open>tv_usec\<close> that \<open>gettimeofday\<close> stores.\<close>

record env =
  calloc_ok :: bool
  localtime :: "tm option"
  tv_usec :: int

text \<open>\<open>INT32U msec = tv.tv_usec / 1000; if (msec >= 1000) msec = 999;\<close> The division
  is C's, rounding towards zero; the quotient is converted to 32 bits.\<close>

definition msec_of :: "int \<Rightarrow> 32 word" where
  "msec_of usec =
     (let msec = (word_of_int (usec sdiv 1000) :: 32 word)
      in if msec \<ge> 1000 then 999 else msec)"

subsection \<open>VbLogHdrBuild\<close>

text \<open>\<open>dst\<close> is the block the caller allocated (both callers pass it after their null
  test, so \<open>dst != NULL\<close> holds); \<open>file\<close> and \<open>function\<close> are \<open>None\<close> for a null pointer;
  \<open>line\<close> is an INT16U. The result is the block after the call.\<close>

definition VbLogHdrBuild ::
  "externs \<Rightarrow> env \<Rightarrow> char list \<Rightarrow> nat \<Rightarrow> string option \<Rightarrow> 16 word \<Rightarrow> string option
     \<Rightarrow> char list option" where
  "VbLogHdrBuild x e dst mode file line function =
     (case (file, function) of
        (Some file_p, Some function_p) \<Rightarrow>
          if mode < VB_LOG_LAST x then
            (case localtime e of
               None \<Rightarrow> Some dst
             | Some tmu \<Rightarrow> do {
                 mode_str \<leftarrow> snprintf (auto_array (VB_LOG_MAX_MODE_LEN + 1)) 0 (VB_LOG_MAX_MODE_LEN + 1)
                              (fmt_s 7 (cstr (VbVerboseLevelToStr x mode)));
                 mode_str \<leftarrow> poke mode_str VB_LOG_MAX_MODE_LEN NUL;
                 file_name_str \<leftarrow> strncpy (auto_array (VB_LOG_MAX_FILE_LEN + 1)) 0 file_p
                                   (VB_LOG_MAX_FILE_LEN + 1);
                 file_name_str \<leftarrow> poke file_name_str VB_LOG_MAX_FILE_LEN NUL;
                 linenum_name_str \<leftarrow> snprintf (auto_array (VB_LOG_MAX_LINENUM_LEN + 1)) 0
                                      (VB_LOG_MAX_LINENUM_LEN + 1) (fmt_0u 5 (unat line));
                 linenum_name_str \<leftarrow> poke linenum_name_str VB_LOG_MAX_LINENUM_LEN NUL;
                 func_name_str \<leftarrow> strncpy (auto_array (VB_LOG_MAX_FUNC_LEN + 1)) 0 function_p
                                   (VB_LOG_MAX_FUNC_LEN + 1);
                 func_name_str \<leftarrow> poke func_name_str VB_LOG_MAX_FUNC_LEN NUL;
                 snprintf dst 0 (VB_LOG_MAX_HDR_LEN + 1)
                   (VB_LOG_FMT (cstr mode_str) (cstr file_name_str) (cstr linenum_name_str)
                      (cstr func_name_str) (tm_hour tmu) (tm_min tmu) (tm_sec tmu)
                      (sint (msec_of (tv_usec e))))
               })
          else Some dst
      | _ \<Rightarrow> Some dst)"

subsection \<open>The state of the process\<close>

text \<open>\<open>vbLogVerbose\<close> is the static variable of the file. The other fields record what
  the calls do to the outside: the texts handed to \<open>syslog\<close>, the bytes written to
  \<open>stderr\<close>, and the number of calls of \<open>calloc\<close>.\<close>

record log_state =
  vbLogVerbose :: nat
  syslog_out :: "string list"
  stderr_out :: string
  calloc_calls :: nat

text \<open>\<open>syslog(LOG_INFO, "%s", log_line)\<close>\<close>

definition syslog :: "char list \<Rightarrow> log_state \<Rightarrow> log_state" where
  "syslog log_line s = s\<lparr>syslog_out := syslog_out s @ [cstr log_line]\<rparr>"

text \<open>\<open>text\<close> is what the format and its arguments expand to.\<close>

definition VbLogErrorPrint :: "string \<Rightarrow> log_state \<Rightarrow> log_state" where
  "VbLogErrorPrint text s = s\<lparr>stderr_out := stderr_out s @ text @ [CHR 0x0A]\<rparr>"

subsection \<open>The public functions\<close>

definition VbLogInit ::
  "string option \<Rightarrow> nat \<Rightarrow> string option \<Rightarrow> 32 word \<Rightarrow> nat \<Rightarrow> bool \<Rightarrow> log_state
     \<Rightarrow> int \<times> log_state" where
  "VbLogInit queueName verboseLevel outputFolder persLogNumLines persLogVerbose circular s =
     (0, s\<lparr>vbLogVerbose := verboseLevel\<rparr>)"

definition VbLogRun :: "log_state \<Rightarrow> bool \<times> log_state" where
  "VbLogRun s = (True, s)"

definition VbLogStop :: "log_state \<Rightarrow> log_state" where
  "VbLogStop s = s"

text \<open>In the two helpers \<open>msg\<close> stands for \<open>fmt, ...\<close>: it is the text the format and its
  arguments expand to. The block is not released by the source.\<close>

definition VbLogPrint_helper ::
  "externs \<Rightarrow> env \<Rightarrow> string option \<Rightarrow> 16 word \<Rightarrow> string option \<Rightarrow> nat \<Rightarrow> string \<Rightarrow> log_state
     \<Rightarrow> log_state option" where
  "VbLogPrint_helper x e current_file_name current_line_number current_function_name
       verboseLevel msg s =
     (if verboseLevel \<le> vbLogVerbose s then
        (let s1 = s\<lparr>calloc_calls := calloc_calls s + 1\<rparr>
         in case calloc (calloc_ok e) 1 (VB_LOG_ENTRY_LEN + 1) of
              None \<Rightarrow>
                Some (VbLogErrorPrint
                        (''No memory to allocate log_line ('' @ fmt_d (int (VB_LOG_ENTRY_LEN + 1))
                           @ '' bytes)'') s1)
            | Some log_line \<Rightarrow> do {
                log_line \<leftarrow> VbLogHdrBuild x e log_line verboseLevel current_file_name
                              current_line_number current_function_name;
                let dst = VB_LOG_MAX_HDR_LEN;
                log_line \<leftarrow> vsnprintf log_line dst VB_LOG_MAX_LINE_LEN msg;
                Some (syslog log_line s1)
              })
      else Some s)"

text \<open>\<open>driverId\<close> is \<open>None\<close> for a null pointer, which \<open>strncpy\<close> would read through.\<close>

definition VbLogPrintExt_helper ::
  "externs \<Rightarrow> env \<Rightarrow> string option \<Rightarrow> 16 word \<Rightarrow> string option \<Rightarrow> nat \<Rightarrow> string option \<Rightarrow> string
     \<Rightarrow> log_state \<Rightarrow> log_state option" where
  "VbLogPrintExt_helper x e current_file_name current_line_number current_function_name
       verboseLevel driverId msg s =
     (if verboseLevel \<le> vbLogVerbose s then
        (let s1 = s\<lparr>calloc_calls := calloc_calls s + 1\<rparr>
         in case calloc (calloc_ok e) 1 (VB_LOG_EXT_ENTRY_LEN x + 1) of
              None \<Rightarrow>
                Some (VbLogErrorPrint
                        (''No memory to allocate log_line ('' @ fmt_d (int (VB_LOG_EXT_ENTRY_LEN x + 1))
                           @ '' bytes)'') s1)
            | Some log_line \<Rightarrow> do {
                log_line \<leftarrow> VbLogHdrBuild x e log_line verboseLevel current_file_name
                              current_line_number current_function_name;
                let dst = VB_LOG_MAX_HDR_LEN;
                driverId_p \<leftarrow> driverId;
                driver_id_str \<leftarrow> strncpy (auto_array (VB_EA_DRIVER_ID_MAX_SIZE x)) 0 driverId_p
                                   (VB_EA_DRIVER_ID_MAX_SIZE x);
                driver_id_str \<leftarrow> (if VB_EA_DRIVER_ID_MAX_SIZE x = 0 then None
                                   else poke driver_id_str (VB_EA_DRIVER_ID_MAX_SIZE x - 1) NUL);
                log_line \<leftarrow> snprintf log_line dst (VB_LOG_MAX_DRIVER_HDR_LEN x)
                              (VB_LOG_DRIVER_ID_FMT (cstr driver_id_str));
                let dst = dst + (VB_LOG_MAX_DRIVER_HDR_LEN x - 1);
                log_line \<leftarrow> vsnprintf log_line dst VB_LOG_MAX_LINE_LEN msg;
                Some (syslog log_line s1)
              })
      else Some s)"

definition VbLogSaveToTextFile :: "string option \<Rightarrow> string option \<Rightarrow> int \<Rightarrow> string \<Rightarrow> log_state \<Rightarrow> log_state" where
  "VbLogSaveToTextFile file_name access_mode maxLen msg s = s"

definition VbLogVerboseLevelGet :: "log_state \<Rightarrow> nat" where
  "VbLogVerboseLevelGet s = vbLogVerbose s"

subsection \<open>Sequences of calls\<close>

datatype log_call =
  Print env "string option" "16 word" "string option" nat string
| PrintExt env "string option" "16 word" "string option" nat "string option" string
| Query
| Init "string option" nat "string option" "32 word" nat bool

fun is_Init :: "log_call \<Rightarrow> bool" where
  "is_Init (Init q lvl folder n p c) = True"
| "is_Init c = False"

fun run_call :: "externs \<Rightarrow> log_call \<Rightarrow> log_state \<Rightarrow> log_state option" where
  "run_call x (Print e f l g lvl msg) s = VbLogPrint_helper x e f l g lvl msg s"
| "run_call x (PrintExt e f l g lvl d msg) s = VbLogPrintExt_helper x e f l g lvl d msg s"
| "run_call x Query s = Some s"
| "run_call x (Init q lvl folder n p c) s = Some (snd (VbLogInit q lvl folder n p c s))"

fun run_calls :: "externs \<Rightarrow> log_call list \<Rightarrow> log_state \<Rightarrow> log_state option" where
  "run_calls x [] s = Some s"
| "run_calls x (c # cs) s = (case run_call x c s of None \<Rightarrow> None | Some s' \<Rightarrow> run_calls x cs s')"

subsection \<open>The header as text\<close>

text \<open>The characters that \<open>VbLogHdrBuild\<close> leaves at the start of \<open>dst\<close> when it passes
  its tests (lemma \<open>VbLogHdrBuild_built\<close> below): the expansion of the format on the four
  local arrays, cut by the final \<open>snprintf\<close>.\<close>

definition header_text :: "externs \<Rightarrow> env \<Rightarrow> tm \<Rightarrow> nat \<Rightarrow> string \<Rightarrow> 16 word \<Rightarrow> string \<Rightarrow> string" where
  "header_text x e tmu mode file_p line function_p =
     take VB_LOG_MAX_HDR_LEN
       (VB_LOG_FMT (take VB_LOG_MAX_MODE_LEN (fmt_s 7 (cstr (VbVerboseLevelToStr x mode))))
          (take VB_LOG_MAX_FILE_LEN (cstr file_p)) (fmt_0u 5 (unat line))
          (take VB_LOG_MAX_FUNC_LEN (cstr function_p))
          (tm_hour tmu) (tm_min tmu) (tm_sec tmu) (sint (msec_of (tv_usec e))))"

subsection \<open>Sample values for the examples\<close>

text \<open>The examples below run the functions with these values for the declarations that
  the tree lacks, a clock reading of 09:05:59 and 123456 microseconds, and a threshold of 1.\<close>

definition sample_level_name :: "nat \<Rightarrow> string" where
  "sample_level_name n =
     (if n = 0 then ''ERROR'' else if n = 1 then ''WARNING'' else if n = 2 then ''INFO''
      else ''DEBUG'')"

definition sample_externs :: externs where
  "sample_externs =
     \<lparr>VB_LOG_LAST = 4, VB_EA_DRIVER_ID_MAX_SIZE = 20, VbVerboseLevelToStr = sample_level_name\<rparr>"

definition sample_tm :: tm where
  "sample_tm = \<lparr>tm_hour = 9, tm_min = 5, tm_sec = 59\<rparr>"

definition sample_env :: env where
  "sample_env = \<lparr>calloc_ok = True, localtime = Some sample_tm, tv_usec = 123456\<rparr>"

definition sample_state :: log_state where
  "sample_state = \<lparr>vbLogVerbose = 1, syslog_out = [], stderr_out = [], calloc_calls = 0\<rparr>"

section \<open>Properties\<close>

subsection \<open>C strings\<close>

lemma NUL_notin_cstr: "NUL \<notin> set (cstr m)"
  by (auto simp: cstr_def dest: set_takeWhileD)

lemma cstr_terminated: "NUL \<notin> set a \<Longrightarrow> cstr (a @ NUL # b) = a"
  by (auto simp: cstr_def takeWhile_tail)

lemma NUL_notin_take: "NUL \<notin> set a \<Longrightarrow> NUL \<notin> set (take n a)"
  by (auto dest: in_set_takeD)

lemma cstr_take: "cstr (take n m) = take n (cstr m)"
  unfolding cstr_def
proof (induction m arbitrary: n)
  case Nil
  show ?case by simp
next
  case (Cons c m)
  then show ?case by (cases n) simp_all
qed

lemma cstr_cut: "cstr (take n out @ NUL # b) = take n (cstr out)"
proof -
  have "cstr (take n out @ NUL # b) = cstr (take n out)"
    by (simp add: cstr_def takeWhile_tail)
  then show ?thesis by (simp add: cstr_take)
qed

subsection \<open>Writes\<close>

lemma length_mem_write: "mem_write m off bs = Some m' \<Longrightarrow> length m' = length m"
  by (auto simp: mem_write_def split: if_splits)

lemma cstr_prefix: "take (length (cstr m)) m = cstr m"
  unfolding cstr_def by (rule takeWhile_eq_take [symmetric])

lemma cstr_append_clean: "NUL \<notin> set a \<Longrightarrow> cstr (a @ b) = a @ cstr b"
  by (induction a) (auto simp: cstr_def)

lemma cstr_append_stop: "NUL \<in> set a \<Longrightarrow> cstr (a @ b) = cstr a"
  by (induction a) (auto simp: cstr_def)

lemma cstr_write_at_end:
  assumes "mem_write m off bs = Some m'" and "length (cstr m) = off" and "NUL \<in> set bs"
  shows "cstr m' = cstr m @ cstr bs"
proof -
  from assms(1) have m': "m' = take off m @ bs @ drop (off + length bs) m"
    by (auto simp: mem_write_def split: if_splits)
  have "take off m = cstr m" using assms(2) cstr_prefix [of m] by simp
  with m' have "cstr m' = cstr m @ cstr (bs @ drop (off + length bs) m)"
    by (simp add: cstr_append_clean NUL_notin_cstr)
  with assms(3) show ?thesis by (simp add: cstr_append_stop)
qed

lemma NUL_at_end_of_cstr: "length (cstr m) < length m \<Longrightarrow> m ! length (cstr m) = NUL"
  unfolding cstr_def using nth_length_takeWhile [of "\<lambda>c. c \<noteq> NUL" m] by simp

lemma cstr_write_after:
  assumes "mem_write m off bs = Some m'" and "length (cstr m) < off"
  shows "cstr m' = cstr m"
proof -
  from assms(1) have m': "m' = take off m @ bs @ drop (off + length bs) m" and le: "off \<le> length m"
    by (auto simp: mem_write_def split: if_splits)
  from assms(2) le have "take off m ! length (cstr m) = NUL"
    by (simp add: NUL_at_end_of_cstr)
  moreover from assms(2) le have "length (cstr m) < length (take off m)" by simp
  ultimately have "NUL \<in> set (take off m)" by (metis nth_mem)
  with m' have "cstr m' = cstr (take off m)" by (simp add: cstr_append_stop)
  with assms(2) show ?thesis by (simp add: cstr_take)
qed

lemma cstr_snprintf_bytes: "0 < n \<Longrightarrow> cstr (snprintf_bytes n out) = take (n - 1) (cstr out)"
  by (simp add: snprintf_bytes_def cstr_cut)

lemma snprintf_ok:
  assumes "0 < n" and "off + n \<le> length m"
  shows "\<exists>m'. snprintf m off n out = Some m' \<and> length m' = length m
            \<and> (length (cstr m) = off \<longrightarrow> cstr m' = cstr m @ take (n - 1) (cstr out))
            \<and> (length (cstr m) < off \<longrightarrow> cstr m' = cstr m)"
proof -
  have len: "length (snprintf_bytes n out) \<le> n"
    using assms(1) by (simp add: snprintf_bytes_def)
  with assms(2) obtain m' where w: "mem_write m off (snprintf_bytes n out) = Some m'"
    by (simp add: mem_write_def)
  have nul: "NUL \<in> set (snprintf_bytes n out)"
    using assms(1) by (simp add: snprintf_bytes_def)
  from w have "length m' = length m" by (rule length_mem_write)
  moreover have "length (cstr m) = off \<longrightarrow> cstr m' = cstr m @ take (n - 1) (cstr out)"
    using cstr_write_at_end [OF w _ nul] assms(1) by (simp add: cstr_snprintf_bytes)
  moreover have "length (cstr m) < off \<longrightarrow> cstr m' = cstr m"
    using cstr_write_after [OF w] by simp
  ultimately show ?thesis using w by (simp add: snprintf_def)
qed

lemma cstr_calloc_block: "cstr (replicate n NUL) = []"
  by (cases n) (simp_all add: cstr_def)


lemma snprintf_at:
  assumes "0 < n" "off + n \<le> length m"
  shows "snprintf m off n out =
           Some (take off m @ take (n - 1) out @ NUL # drop (off + min (length out) (n - 1) + 1) m)"
  using assms by (auto simp: snprintf_def snprintf_bytes_def mem_write_def min_def)

lemma snprintf_local:
  assumes "n \<le> length out"
  shows "snprintf (auto_array (Suc n)) 0 (Suc n) out = Some (take n out @ [NUL])"
  using assms by (simp add: snprintf_def snprintf_bytes_def mem_write_def auto_array_def)

lemma poke_terminator:
  assumes "length a = n"
  shows "poke (a @ [NUL]) n NUL = Some (a @ [NUL])"
  using assms by (simp add: poke_def mem_write_def)

lemma strncpy_local:
  "strncpy (auto_array (Suc n)) 0 src (Suc n) = Some (strncpy_bytes src (Suc n))"
  by (simp add: strncpy_def mem_write_def auto_array_def strncpy_bytes_def)

lemma take_Cons_replicate: "take k (c # replicate k c) = replicate k c"
  by (induction k) simp_all

lemma poke_strncpy:
  "poke (strncpy_bytes src (Suc n)) n NUL =
     Some (take n (cstr src) @ replicate (n - length (cstr src)) NUL @ [NUL])"
  by (cases "length (cstr src) \<le> n") (simp_all add: poke_def mem_write_def strncpy_bytes_def min_def Suc_diff_le take_Cons_replicate)

lemma cstr_copied:
  "cstr (take n (cstr src) @ replicate (n - length (cstr src)) NUL @ [NUL]) = take n (cstr src)"
proof -
  have "NUL \<notin> set (take n (cstr src))"
    by (rule NUL_notin_take [OF NUL_notin_cstr])
  then show ?thesis
    by (cases "n - length (cstr src)") (simp_all add: cstr_terminated)
qed

subsection \<open>Decimal digits\<close>

lemma char_of_digit_nonzero: "d < 10 \<Longrightarrow> char_of (48 + d :: nat) \<noteq> NUL"
proof
  assume d: "d < 10" and "char_of (48 + d) = NUL"
  then have "(of_char (char_of (48 + d)) :: nat) = of_char NUL" by simp
  then have "(48 + d) mod 256 = 0" by (simp add: NUL_def)
  with d show False by simp
qed

lemma NUL_notin_dec: "NUL \<notin> set (dec n)"
proof (induction n rule: dec.induct)
  case (1 n)
  show ?case
  proof (cases "n < 10")
    case True
    then show ?thesis using char_of_digit_nonzero [of n] by (subst dec.simps) auto
  next
    case False
    have "n mod 10 < 10" by simp
    then have "char_of (48 + n mod 10) \<noteq> NUL" by (rule char_of_digit_nonzero)
    with False 1 show ?thesis by (subst dec.simps) auto
  qed
qed

lemma length_dec_le: "n < 10 ^ k \<Longrightarrow> 0 < k \<Longrightarrow> length (dec n) \<le> k"
proof (induction n arbitrary: k rule: dec.induct)
  case (1 n)
  show ?case
  proof (cases "n < 10")
    case True
    with 1 show ?thesis by (subst dec.simps) simp
  next
    case False
    with 1 have k: "1 < k" by (cases k; cases "k - 1") auto
    then obtain j where j: "k = Suc j" "0 < j" by (cases k) auto
    with 1 have "n div 10 < 10 ^ j" by (simp add: less_mult_imp_div_less mult.commute)
    with 1 False j have "length (dec (n div 10)) \<le> j" by blast
    with False j show ?thesis by (subst dec.simps) simp
  qed
qed

subsection \<open>Conversions\<close>

lemma length_fmt_s: "length (fmt_s w s) = max w (length s)"
  by (simp add: fmt_s_def)

lemma length_fmt_ls: "length (fmt_ls w s) = max w (length s)"
  by (simp add: fmt_ls_def)

lemma length_fmt_0u: "length (fmt_0u w n) = max w (length (dec n))"
  by (simp add: fmt_0u_def)

lemma length_fmt_0d_ge: "w \<le> length (fmt_0d w i)"
  by (simp add: fmt_0d_def fmt_0u_def) arith

lemma length_fmt_0d: "0 \<le> i \<Longrightarrow> i < 10 ^ w \<Longrightarrow> 0 < w \<Longrightarrow> length (fmt_0d w i) = w"
proof -
  assume a: "0 \<le> i" "i < 10 ^ w" "0 < w"
  then have "nat i < 10 ^ w" by (simp add: nat_less_iff)
  with a have "length (dec (nat i)) \<le> w" by (simp add: length_dec_le)
  with a show ?thesis by (simp add: fmt_0d_def fmt_0u_def)
qed

lemma length_linenum: "length (fmt_0u 5 (unat (line :: 16 word))) = 5"
proof -
  have "unat line < 2 ^ 16" using unsigned_less [of line] by simp
  then have "unat line < 10 ^ 5" by simp
  then have "length (dec (unat line)) \<le> 5" by (simp add: length_dec_le)
  then show ?thesis by (simp add: length_fmt_0u)
qed

lemma NUL_notin_fmt_s: "NUL \<notin> set s \<Longrightarrow> NUL \<notin> set (fmt_s w s)"
  by (auto simp: fmt_s_def NUL_def)

lemma NUL_notin_fmt_ls: "NUL \<notin> set s \<Longrightarrow> NUL \<notin> set (fmt_ls w s)"
  by (auto simp: fmt_ls_def NUL_def)

lemma NUL_notin_fmt_0u: "NUL \<notin> set (fmt_0u w n)"
  using NUL_notin_dec [of n] by (auto simp: fmt_0u_def NUL_def)

lemma NUL_notin_fmt_0d: "NUL \<notin> set (fmt_0d w i)"
  using NUL_notin_dec [of "nat (- i)"] NUL_notin_fmt_0u [of w "nat i"]
  by (auto simp: fmt_0d_def NUL_def)

lemma NUL_notin_VB_LOG_FMT:
  "NUL \<notin> set a \<Longrightarrow> NUL \<notin> set b \<Longrightarrow> NUL \<notin> set c \<Longrightarrow> NUL \<notin> set d \<Longrightarrow>
     NUL \<notin> set (VB_LOG_FMT a b c d h m s ms)"
  using NUL_notin_fmt_0d [of 2 h] NUL_notin_fmt_0d [of 2 m] NUL_notin_fmt_0d [of 2 s]
    NUL_notin_fmt_0d [of 3 ms] NUL_notin_fmt_s [of a 7] NUL_notin_fmt_s [of b 30]
    NUL_notin_fmt_s [of c 5] NUL_notin_fmt_s [of d 40]
  by (simp add: VB_LOG_FMT_def) (simp add: NUL_def)

lemma length_VB_LOG_FMT_ge: "106 \<le> length (VB_LOG_FMT a b c d h m s ms)"
  using length_fmt_0d_ge [of 2 h] length_fmt_0d_ge [of 2 m] length_fmt_0d_ge [of 2 s]
    length_fmt_0d_ge [of 3 ms]
  by (simp add: VB_LOG_FMT_def length_fmt_s)

subsection \<open>Milliseconds\<close>

lemma msec_of_le: "msec_of usec \<le> 999"
  by (simp add: msec_of_def Let_def word_le_nat_alt)

lemma uint_msec_of_le: "uint (msec_of usec) \<le> 999"
  using msec_of_le [of usec] by (simp add: word_le_def)

lemma sint_msec_of: "sint (msec_of usec) = uint (msec_of usec)"
proof -
  have "uint (msec_of usec) < 2 ^ 31" using uint_msec_of_le [of usec] by simp
  moreover have "- (2 ^ 31) \<le> uint (msec_of usec)"
  proof -
    have "(0::int) \<le> uint (msec_of usec)" by simp
    then have "- 2147483648 \<le> uint (msec_of usec)" by linarith
    then show ?thesis by simp
  qed
  ultimately show ?thesis by (simp add: sint_uint signed_take_bit_int_eq_self)
qed

lemma length_msec_field: "length (fmt_0d 3 (sint (msec_of usec))) = 3"
  using uint_msec_of_le [of usec] by (simp add: sint_msec_of length_fmt_0d)

subsection \<open>The header builder and the two helpers, step by step\<close>

lemmas log_consts = VB_LOG_MAX_HDR_LEN_def VB_LOG_MAX_FILE_LEN_def VB_LOG_MAX_LINENUM_LEN_def
  VB_LOG_MAX_FUNC_LEN_def VB_LOG_MAX_MODE_LEN_def VB_LOG_MAX_EXTRA_LEN_def VB_LOG_MAX_LINE_LEN_def
  VB_LOG_ENTRY_LEN_def VB_LOG_EXT_ENTRY_LEN_def VB_LOG_MAX_EXT_HDR_LEN_def
  VB_LOG_MAX_DRIVER_HDR_LEN_def

lemma length_header_text: "length (header_text x e tmu mode f line g) = 106"
  using length_VB_LOG_FMT_ge [of "take 7 (fmt_s 7 (cstr (VbVerboseLevelToStr x mode)))"
      "take 30 (cstr f)" "fmt_0u 5 (unat line)" "take 40 (cstr g)"
      "tm_hour tmu" "tm_min tmu" "tm_sec tmu" "sint (msec_of (tv_usec e))"]
  by (simp add: header_text_def log_consts)

lemma NUL_notin_header_text: "NUL \<notin> set (header_text x e tmu mode f line g)"
  unfolding header_text_def
  by (intro NUL_notin_take NUL_notin_VB_LOG_FMT NUL_notin_fmt_s NUL_notin_cstr NUL_notin_fmt_0u)

lemma VbLogHdrBuild_skip:
  "file = None \<or> function = None \<or> \<not> mode < VB_LOG_LAST x \<or> localtime e = None \<Longrightarrow>
     VbLogHdrBuild x e dst mode file line function = Some dst"
  by (auto simp: VbLogHdrBuild_def split: option.splits)

lemma VbLogHdrBuild_built:
  assumes "mode < VB_LOG_LAST x" and "localtime e = Some tmu"
    and "VB_LOG_MAX_HDR_LEN + 1 \<le> length dst"
  shows "VbLogHdrBuild x e dst mode (Some f) line (Some g) =
           Some (header_text x e tmu mode f line g @ NUL # drop 107 dst)"
proof -
  let ?nm = "fmt_s 7 (cstr (VbVerboseLevelToStr x mode))"
  let ?ln = "fmt_0u 5 (unat line)"
  have m1: "snprintf (auto_array 8) 0 8 ?nm = Some (take 7 ?nm @ [NUL])"
    using snprintf_local [of 7 ?nm] by (simp add: length_fmt_s)
  have m2: "poke (take 7 ?nm @ [NUL]) 7 NUL = Some (take 7 ?nm @ [NUL])"
    by (rule poke_terminator) (simp add: length_fmt_s)
  have m3: "cstr (take 7 ?nm @ [NUL]) = take 7 ?nm"
    by (simp add: cstr_terminated NUL_notin_take NUL_notin_fmt_s NUL_notin_cstr)
  have f1: "strncpy (auto_array 31) 0 f 31 = Some (strncpy_bytes f 31)"
    using strncpy_local [of 30 f] by simp
  have f2: "poke (strncpy_bytes f 31) 30 NUL =
              Some (take 30 (cstr f) @ replicate (30 - length (cstr f)) NUL @ [NUL])"
    using poke_strncpy [of f 30] by simp
  have l1: "snprintf (auto_array 6) 0 6 ?ln = Some (?ln @ [NUL])"
    using snprintf_local [of 5 ?ln] by (simp add: length_linenum)
  have l2: "poke (?ln @ [NUL]) 5 NUL = Some (?ln @ [NUL])"
    by (rule poke_terminator) (rule length_linenum)
  have l3: "cstr (?ln @ [NUL]) = ?ln"
    by (simp add: cstr_terminated NUL_notin_fmt_0u)
  have g1: "strncpy (auto_array 41) 0 g 41 = Some (strncpy_bytes g 41)"
    using strncpy_local [of 40 g] by simp
  have g2: "poke (strncpy_bytes g 41) 40 NUL =
              Some (take 40 (cstr g) @ replicate (40 - length (cstr g)) NUL @ [NUL])"
    using poke_strncpy [of g 40] by simp
  let ?out = "VB_LOG_FMT (take 7 ?nm) (take 30 (cstr f)) ?ln (take 40 (cstr g))
                (tm_hour tmu) (tm_min tmu) (tm_sec tmu) (sint (msec_of (tv_usec e)))"
  have d: "snprintf dst 0 107 ?out = Some (take 106 ?out @ NUL # drop 107 dst)"
    using assms(3) length_VB_LOG_FMT_ge [of "take 7 ?nm" "take 30 (cstr f)" ?ln "take 40 (cstr g)"
        "tm_hour tmu" "tm_min tmu" "tm_sec tmu" "sint (msec_of (tv_usec e))"]
    by (simp add: snprintf_at log_consts min_def)
  show ?thesis
    using assms(1,2)
    by (simp add: VbLogHdrBuild_def header_text_def log_consts m1 m2 m3 f1 f2 l1 l2 l3 g1 g2
        cstr_copied d)
qed

lemma VbLogHdrBuild_built_cstr:
  assumes "mode < VB_LOG_LAST x" and "localtime e = Some tmu"
    and "VB_LOG_MAX_HDR_LEN + 1 \<le> length dst"
  shows "\<exists>b. VbLogHdrBuild x e dst mode (Some f) line (Some g) = Some b \<and> length b = length dst
           \<and> cstr b = header_text x e tmu mode f line g"
  using assms(3)
  by (simp add: VbLogHdrBuild_built [OF assms] cstr_terminated NUL_notin_header_text
      length_header_text log_consts)

lemma dec_307: "dec 307 = ''307''"
  by code_simp

lemma VbLogPrint_helper_filtered:
  "\<not> verboseLevel \<le> vbLogVerbose s \<Longrightarrow>
     VbLogPrint_helper x e file line function verboseLevel msg s = Some s"
  by (simp add: VbLogPrint_helper_def)

lemma VbLogPrint_helper_nomem:
  assumes "verboseLevel \<le> vbLogVerbose s" and "\<not> calloc_ok e"
  shows "VbLogPrint_helper x e file line function verboseLevel msg s =
           Some (s\<lparr>calloc_calls := calloc_calls s + 1,
                   stderr_out := stderr_out s @ ''No memory to allocate log_line (307 bytes)''
                                   @ [CHR 0x0A]\<rparr>)"
  using assms
  by (simp add: VbLogPrint_helper_def calloc_def VbLogErrorPrint_def fmt_d_def log_consts dec_307)

lemma VbLogPrint_helper_built:
  assumes "verboseLevel \<le> vbLogVerbose s" and "calloc_ok e"
    and "verboseLevel < VB_LOG_LAST x" and "localtime e = Some tmu"
  shows "VbLogPrint_helper x e (Some f) line (Some g) verboseLevel msg s =
           Some (s\<lparr>calloc_calls := calloc_calls s + 1,
                   syslog_out := syslog_out s @
                     [header_text x e tmu verboseLevel f line g @ take 199 (cstr msg)]\<rparr>)"
proof -
  let ?b0 = "replicate 307 NUL"
  have c: "calloc (calloc_ok e) (Suc 0) 307 = Some ?b0"
    using assms(2) by (simp add: calloc_def)
  obtain b1 where b1: "VbLogHdrBuild x e ?b0 verboseLevel (Some f) line (Some g) = Some b1"
      "length b1 = 307" "cstr b1 = header_text x e tmu verboseLevel f line g"
    using VbLogHdrBuild_built_cstr [OF assms(3,4), of ?b0 f line g] by (auto simp: log_consts)
  obtain b2 where b2: "snprintf b1 106 200 msg = Some b2"
      "cstr b2 = cstr b1 @ take 199 (cstr msg)"
    using snprintf_ok [of 200 106 b1 msg] b1 by (auto simp: length_header_text)
  show ?thesis
    using assms(1) by (simp add: VbLogPrint_helper_def c b1 b2 vsnprintf_def syslog_def log_consts)
qed

lemma VbLogPrint_helper_skipped:
  assumes "verboseLevel \<le> vbLogVerbose s" and "calloc_ok e"
    and "file = None \<or> function = None \<or> \<not> verboseLevel < VB_LOG_LAST x \<or> localtime e = None"
  shows "VbLogPrint_helper x e file line function verboseLevel msg s =
           Some (s\<lparr>calloc_calls := calloc_calls s + 1, syslog_out := syslog_out s @ [[]]\<rparr>)"
proof -
  let ?b0 = "replicate 307 NUL"
  have c: "calloc (calloc_ok e) (Suc 0) 307 = Some ?b0"
    using assms(2) by (simp add: calloc_def)
  have b1: "VbLogHdrBuild x e ?b0 verboseLevel file line function = Some ?b0"
    using assms(3) by (rule VbLogHdrBuild_skip)
  obtain b2 where b2: "snprintf ?b0 106 200 msg = Some b2" "cstr b2 = []"
    using snprintf_ok [of 200 106 ?b0 msg] by (auto simp: cstr_calloc_block)
  show ?thesis
    using assms(1) by (simp add: VbLogPrint_helper_def c b1 b2 vsnprintf_def syslog_def log_consts)
qed

lemma NUL_notin_VB_LOG_DRIVER_ID_FMT: "NUL \<notin> set a \<Longrightarrow> NUL \<notin> set (VB_LOG_DRIVER_ID_FMT a)"
  using NUL_notin_fmt_ls [of a 20] by (simp add: VB_LOG_DRIVER_ID_FMT_def) (simp add: NUL_def)

lemma length_VB_LOG_DRIVER_ID_FMT: "length (VB_LOG_DRIVER_ID_FMT a) = 2 + max 20 (length a)"
  by (simp add: VB_LOG_DRIVER_ID_FMT_def length_fmt_ls)

lemma cstr_clean: "NUL \<notin> set a \<Longrightarrow> cstr a = a"
  by (induction a) (auto simp: cstr_def)

lemma driver_id_str_copied:
  assumes "0 < n"
  shows "strncpy (auto_array n) 0 d n \<bind> (\<lambda>a. (if n = 0 then None else poke a (n - 1) NUL) \<bind> k) =
           k (take (n - 1) (cstr d) @ replicate (n - 1 - length (cstr d)) NUL @ [NUL])"
proof -
  from assms obtain j where j: "n = Suc j" by (cases n) auto
  show ?thesis
    using strncpy_local [of j d] poke_strncpy [of d j] by (simp add: j)
qed

lemma VbLogPrintExt_helper_filtered:
  "\<not> verboseLevel \<le> vbLogVerbose s \<Longrightarrow>
     VbLogPrintExt_helper x e file line function verboseLevel driverId msg s = Some s"
  by (simp add: VbLogPrintExt_helper_def)

lemma VbLogPrintExt_helper_nomem:
  assumes "verboseLevel \<le> vbLogVerbose s" and "\<not> calloc_ok e"
  shows "VbLogPrintExt_helper x e file line function verboseLevel driverId msg s =
           Some (s\<lparr>calloc_calls := calloc_calls s + 1,
                   stderr_out := stderr_out s @ ''No memory to allocate log_line (''
                      @ fmt_d (int (VB_LOG_EXT_ENTRY_LEN x + 1)) @ '' bytes)'' @ [CHR 0x0A]\<rparr>)"
  using assms
  by (simp add: VbLogPrintExt_helper_def calloc_def VbLogErrorPrint_def)

lemma VbLogPrintExt_helper_built:
  assumes "verboseLevel \<le> vbLogVerbose s" and "calloc_ok e"
    and "verboseLevel < VB_LOG_LAST x" and "localtime e = Some tmu"
    and "0 < VB_EA_DRIVER_ID_MAX_SIZE x"
  shows "VbLogPrintExt_helper x e (Some f) line (Some g) verboseLevel (Some d) msg s =
           Some (s\<lparr>calloc_calls := calloc_calls s + 1,
                   syslog_out := syslog_out s @
                     [header_text x e tmu verboseLevel f line g @
                      take (VB_EA_DRIVER_ID_MAX_SIZE x + 1)
                        (VB_LOG_DRIVER_ID_FMT (take (VB_EA_DRIVER_ID_MAX_SIZE x - 1) (cstr d))) @
                      (if VB_EA_DRIVER_ID_MAX_SIZE x \<le> 21 \<or> VB_EA_DRIVER_ID_MAX_SIZE x - 1 \<le> length (cstr d)
                       then take 199 (cstr msg) else [])]\<rparr>)"
proof -
  let ?N = "VB_EA_DRIVER_ID_MAX_SIZE x"
  let ?b0 = "replicate (?N + 309) NUL"
  let ?H = "header_text x e tmu verboseLevel f line g"
  let ?R = "VB_LOG_DRIVER_ID_FMT (take (?N - 1) (cstr d))"
  have c: "calloc (calloc_ok e) 1 (VB_LOG_EXT_ENTRY_LEN x + 1) = Some ?b0"
    using assms(2) by (simp add: calloc_def log_consts)
  obtain b1 where b1: "VbLogHdrBuild x e ?b0 verboseLevel (Some f) line (Some g) = Some b1"
      "length b1 = ?N + 309" "cstr b1 = ?H"
    using VbLogHdrBuild_built_cstr [OF assms(3,4), of ?b0 f line g] by (auto simp: log_consts)
  let ?arr = "take (?N - 1) (cstr d) @ replicate (?N - 1 - length (cstr d)) NUL @ [NUL]"
  have arr: "cstr ?arr = take (?N - 1) (cstr d)"
    by (rule cstr_copied)
  have R: "NUL \<notin> set ?R"
    by (intro NUL_notin_VB_LOG_DRIVER_ID_FMT NUL_notin_take NUL_notin_cstr)
  obtain b2 where b2: "snprintf b1 VB_LOG_MAX_HDR_LEN (VB_LOG_MAX_DRIVER_HDR_LEN x) ?R = Some b2"
      "length b2 = ?N + 309" "cstr b2 = ?H @ take (?N + 1) ?R"
    using snprintf_ok [of "?N + 2" 106 b1 ?R] b1 R
    by (auto simp: length_header_text log_consts cstr_clean)
  have lenR: "length ?R = 2 + max 20 (min (length (cstr d)) (?N - 1))"
    by (simp add: length_VB_LOG_DRIVER_ID_FMT)
  let ?tail = "if ?N \<le> 21 \<or> ?N - 1 \<le> length (cstr d) then take 199 (cstr msg) else []"
  obtain b3 where b3: "snprintf b2 (VB_LOG_MAX_HDR_LEN + (VB_LOG_MAX_DRIVER_HDR_LEN x - 1))
        VB_LOG_MAX_LINE_LEN msg = Some b3"
      "cstr b3 = cstr b2 @ ?tail"
  proof (cases "?N \<le> 21 \<or> ?N - 1 \<le> length (cstr d)")
    case True
    with lenR have "length (cstr b2) = 106 + (?N + 1)"
      using assms(5) by (auto simp: b2 length_header_text)
    with that True show ?thesis
      using snprintf_ok [of 200 "106 + (?N + 1)" b2 msg] b2(2) by (auto simp: log_consts)
  next
    case False
    with lenR have "length (cstr b2) < 106 + (?N + 1)"
      by (auto simp: b2 length_header_text)
    with that False show ?thesis
      using snprintf_ok [of 200 "106 + (?N + 1)" b2 msg] b2(2) by (auto simp: log_consts)
  qed
  have "VbLogPrintExt_helper x e (Some f) line (Some g) verboseLevel (Some d) msg s =
          Some (syslog b3 (s\<lparr>calloc_calls := calloc_calls s + 1\<rparr>))"
    unfolding VbLogPrintExt_helper_def Let_def vsnprintf_def
    using assms(1)
    by (simp only: if_True c option.case b1 bind.simps driver_id_str_copied [OF assms(5)] arr b2 b3)
  then show ?thesis
    by (simp add: syslog_def b3 b2)
qed

lemma VbLogPrintExt_helper_skipped:
  assumes "verboseLevel \<le> vbLogVerbose s" and "calloc_ok e"
    and "file = None \<or> function = None \<or> \<not> verboseLevel < VB_LOG_LAST x \<or> localtime e = None"
    and "0 < VB_EA_DRIVER_ID_MAX_SIZE x"
  shows "VbLogPrintExt_helper x e file line function verboseLevel (Some d) msg s =
           Some (s\<lparr>calloc_calls := calloc_calls s + 1, syslog_out := syslog_out s @ [[]]\<rparr>)"
proof -
  let ?N = "VB_EA_DRIVER_ID_MAX_SIZE x"
  let ?b0 = "replicate (?N + 309) NUL"
  let ?arr = "take (?N - 1) (cstr d) @ replicate (?N - 1 - length (cstr d)) NUL @ [NUL]"
  have c: "calloc (calloc_ok e) 1 (VB_LOG_EXT_ENTRY_LEN x + 1) = Some ?b0"
    using assms(2) by (simp add: calloc_def log_consts)
  have b1: "VbLogHdrBuild x e ?b0 verboseLevel file line function = Some ?b0"
    using assms(3) by (rule VbLogHdrBuild_skip)
  obtain b2 where b2: "snprintf ?b0 VB_LOG_MAX_HDR_LEN (VB_LOG_MAX_DRIVER_HDR_LEN x)
        (VB_LOG_DRIVER_ID_FMT (cstr ?arr)) = Some b2"
      "length b2 = ?N + 309" "cstr b2 = []"
    using snprintf_ok [of "?N + 2" 106 ?b0 "VB_LOG_DRIVER_ID_FMT (cstr ?arr)"]
    by (auto simp: log_consts cstr_calloc_block)
  obtain b3 where b3: "snprintf b2 (VB_LOG_MAX_HDR_LEN + (VB_LOG_MAX_DRIVER_HDR_LEN x - 1))
        VB_LOG_MAX_LINE_LEN msg = Some b3"
      "cstr b3 = []"
    using snprintf_ok [of 200 "106 + (?N + 1)" b2 msg] b2(2,3) by (auto simp: log_consts)
  have "VbLogPrintExt_helper x e file line function verboseLevel (Some d) msg s =
          Some (syslog b3 (s\<lparr>calloc_calls := calloc_calls s + 1\<rparr>))"
    unfolding VbLogPrintExt_helper_def Let_def vsnprintf_def
    using assms(1)
    by (simp only: if_True c option.case b1 bind.simps driver_id_str_copied [OF assms(4)] b2 b3)
  then show ?thesis
    by (simp add: syslog_def b3)
qed

lemma VbLogPrintExt_helper_null_driver:
  assumes "verboseLevel \<le> vbLogVerbose s" and "calloc_ok e"
  shows "VbLogPrintExt_helper x e file line function verboseLevel None msg s = None"
proof -
  have c: "calloc (calloc_ok e) 1 (VB_LOG_EXT_ENTRY_LEN x + 1) =
             Some (replicate (VB_LOG_EXT_ENTRY_LEN x + 1) NUL)"
    using assms(2) by (simp add: calloc_def)
  show ?thesis
    unfolding VbLogPrintExt_helper_def Let_def
    using assms(1)
    by (simp only: if_True c option.case bind.simps Option.bind_eq_None_conv) simp
qed

subsection \<open>What a call emits, whatever the state\<close>

lemma VbLogPrint_helper_text:
  assumes "calloc_ok e"
  shows "\<exists>entry. \<forall>s. verboseLevel \<le> vbLogVerbose s \<longrightarrow>
           VbLogPrint_helper x e file line function verboseLevel msg s =
             Some (s\<lparr>calloc_calls := calloc_calls s + 1, syslog_out := syslog_out s @ [entry]\<rparr>)"
proof (cases "file = None \<or> function = None \<or> \<not> verboseLevel < VB_LOG_LAST x \<or> localtime e = None")
  case True
  then show ?thesis
    using VbLogPrint_helper_skipped [OF _ assms True] by blast
next
  case False
  then obtain f g tmu where "file = Some f" "function = Some g" "localtime e = Some tmu"
    "verboseLevel < VB_LOG_LAST x" by auto
  then show ?thesis
    using VbLogPrint_helper_built [OF _ assms, of verboseLevel _ x tmu f line g msg] by blast
qed

lemma VbLogPrintExt_helper_text:
  assumes "calloc_ok e" and "0 < VB_EA_DRIVER_ID_MAX_SIZE x"
  shows "\<exists>entry. \<forall>s. verboseLevel \<le> vbLogVerbose s \<longrightarrow>
           VbLogPrintExt_helper x e file line function verboseLevel (Some d) msg s =
             Some (s\<lparr>calloc_calls := calloc_calls s + 1, syslog_out := syslog_out s @ [entry]\<rparr>)"
proof (cases "file = None \<or> function = None \<or> \<not> verboseLevel < VB_LOG_LAST x \<or> localtime e = None")
  case True
  then show ?thesis
    using VbLogPrintExt_helper_skipped [OF _ assms(1) True assms(2)] by blast
next
  case False
  then obtain f g tmu where "file = Some f" "function = Some g" "localtime e = Some tmu"
    "verboseLevel < VB_LOG_LAST x" by auto
  then show ?thesis
    using VbLogPrintExt_helper_built [OF _ assms(1) _ _ assms(2), of verboseLevel _ tmu f line g d msg]
    by blast
qed

subsection \<open>The threshold over a sequence of calls\<close>

lemma VbLogPrint_helper_threshold:
  "VbLogPrint_helper x e file line function verboseLevel msg s = Some s' \<Longrightarrow>
     vbLogVerbose s' = vbLogVerbose s"
  by (auto simp: VbLogPrint_helper_def syslog_def VbLogErrorPrint_def Let_def
      split: if_splits option.splits bind_splits)

lemma VbLogPrintExt_helper_threshold:
  "VbLogPrintExt_helper x e file line function verboseLevel driverId msg s = Some s' \<Longrightarrow>
     vbLogVerbose s' = vbLogVerbose s"
  by (auto simp: VbLogPrintExt_helper_def syslog_def VbLogErrorPrint_def Let_def
      split: if_splits option.splits bind_splits)

lemma run_call_threshold:
  "run_call x c s = Some s' \<Longrightarrow> \<not> is_Init c \<Longrightarrow> vbLogVerbose s' = vbLogVerbose s"
  by (cases c) (auto dest: VbLogPrint_helper_threshold VbLogPrintExt_helper_threshold)

lemma run_calls_threshold:
  "run_calls x cs s = Some s' \<Longrightarrow> \<forall>c\<in>set cs. \<not> is_Init c \<Longrightarrow> vbLogVerbose s' = vbLogVerbose s"
proof (induction cs arbitrary: s)
  case Nil
  then show ?case by simp
next
  case (Cons c cs)
  from Cons.prems(1) obtain s1 where s1: "run_call x c s = Some s1" "run_calls x cs s1 = Some s'"
    by (auto split: option.splits)
  from s1(1) Cons.prems(2) have "vbLogVerbose s1 = vbLogVerbose s"
    by (auto dest: run_call_threshold)
  moreover from s1(2) Cons.prems(2) have "vbLogVerbose s' = vbLogVerbose s1"
    by (auto intro: Cons.IH)
  ultimately show ?case by simp
qed

lemma run_calls_append:
  "run_calls x (as @ bs) s = (case run_calls x as s of None \<Rightarrow> None | Some s' \<Rightarrow> run_calls x bs s')"
  by (induction as arbitrary: s) (auto split: option.splits)

subsection \<open>The layout of the header\<close>

lemma fmt_s_exact: "length a = w \<Longrightarrow> fmt_s w a = a"
  by (simp add: fmt_s_def)

lemma header_text_layout:
  "header_text x e tmu mode f line g =
     ''['' @ take 7 (fmt_s 7 (cstr (VbVerboseLevelToStr x mode))) @ '']['' @
     fmt_s 30 (take 30 (cstr f)) @ '']['' @ fmt_0u 5 (unat line) @ '']['' @
     fmt_s 40 (take 40 (cstr g)) @ '']['' @
     take 15 (fmt_0d 2 (tm_hour tmu) @ '':'' @ fmt_0d 2 (tm_min tmu) @ '':'' @
              fmt_0d 2 (tm_sec tmu) @ '' '' @ fmt_0d 3 (sint (msec_of (tv_usec e))) @ ''ms]'')"
proof -
  have m: "fmt_s 7 (take 7 (fmt_s 7 (cstr (VbVerboseLevelToStr x mode)))) =
             take 7 (fmt_s 7 (cstr (VbVerboseLevelToStr x mode)))"
    by (rule fmt_s_exact) (simp add: length_fmt_s)
  have l: "fmt_s 5 (fmt_0u 5 (unat line)) = fmt_0u 5 (unat line)"
    by (rule fmt_s_exact) (rule length_linenum)
  show ?thesis
    by (simp add: header_text_def VB_LOG_FMT_def log_consts m l length_fmt_s length_linenum)
qed


lemma header_text_time:
  assumes "0 \<le> tm_hour tmu" "tm_hour tmu < 100" "0 \<le> tm_min tmu" "tm_min tmu < 100"
    "0 \<le> tm_sec tmu" "tm_sec tmu < 100"
  shows "drop 91 (header_text x e tmu mode f line g) =
           fmt_0d 2 (tm_hour tmu) @ '':'' @ fmt_0d 2 (tm_min tmu) @ '':'' @
           fmt_0d 2 (tm_sec tmu) @ '' '' @ fmt_0d 3 (sint (msec_of (tv_usec e))) @ ''ms]''"
  using assms
  by (simp add: header_text_layout length_fmt_s length_linenum length_fmt_0d length_msec_field)

lemma header_text_msec:
  assumes "0 \<le> tm_hour tmu" "tm_hour tmu < 100" "0 \<le> tm_min tmu" "tm_min tmu < 100"
    "0 \<le> tm_sec tmu" "tm_sec tmu < 100"
  shows "take 3 (drop 100 (header_text x e tmu mode f line g)) = fmt_0d 3 (sint (msec_of (tv_usec e)))"
    and "drop 103 (header_text x e tmu mode f line g) = ''ms]''"
proof -
  have "drop 100 (header_text x e tmu mode f line g) = drop 9 (drop 91 (header_text x e tmu mode f line g))"
    by simp
  also have "\<dots> = fmt_0d 3 (sint (msec_of (tv_usec e))) @ ''ms]''"
    using assms by (simp only: header_text_time) (simp add: length_fmt_0d)
  finally have d: "drop 100 (header_text x e tmu mode f line g) =
      fmt_0d 3 (sint (msec_of (tv_usec e))) @ ''ms]''" .
  then show "take 3 (drop 100 (header_text x e tmu mode f line g)) = fmt_0d 3 (sint (msec_of (tv_usec e)))"
    by (simp add: length_msec_field)
  have "drop 103 (header_text x e tmu mode f line g) = drop 3 (drop 100 (header_text x e tmu mode f line g))"
    by simp
  also have "\<dots> = ''ms]''" by (simp only: d) (simp add: length_msec_field)
  finally show "drop 103 (header_text x e tmu mode f line g) = ''ms]''" .
qed

lemma sint_msec_of_general: "sint (msec_of usec) = min ((usec sdiv 1000) mod 2 ^ 32) 999"
proof -
  let ?w = "word_of_int (usec sdiv 1000) :: 32 word"
  have u: "uint ?w = (usec sdiv 1000) mod 2 ^ 32"
    by (simp add: uint_word_of_int_eq take_bit_eq_mod)
  have le: "(1000 \<le> ?w) = (1000 \<le> (usec sdiv 1000) mod 2 ^ 32)"
    using u by (simp add: word_le_def)
  have "uint (msec_of usec) = min ((usec sdiv 1000) mod 2 ^ 32) 999"
    using u le by (simp add: msec_of_def Let_def min_def)
  then show ?thesis by (simp add: sint_msec_of)
qed

lemma sdiv_1000_nonneg: "0 \<le> usec \<Longrightarrow> usec sdiv 1000 = usec div (1000::int)"
  by (simp add: signed_divide_int_def sgn_if)

lemma fmt_0d_999: "fmt_0d 3 999 = ''999''"
  by code_simp

section \<open>The claims\<close>

subsection \<open>C1: the gate\<close>

text \<open>
  C1, amended. For every threshold and every requested level: when the level is above the
  threshold, a plain or an extended call returns at once and leaves the state as it was
  (no call of \<open>calloc\<close>, nothing for syslog, nothing on stderr). When the level is at most
  the threshold and \<open>calloc\<close> succeeds, the call hands exactly one text to syslog (for the
  extended call: given a driver identifier that is not null and an identifier size that is
  not 0). A level at most the threshold does not suffice for a line: see the counterexample.
\<close>

theorem gate_decides_emission:
  "(\<not> verboseLevel \<le> vbLogVerbose s \<longrightarrow>
      VbLogPrint_helper x e file line function verboseLevel msg s = Some s
      \<and> VbLogPrintExt_helper x e file line function verboseLevel driverId msg s = Some s)
   \<and> (verboseLevel \<le> vbLogVerbose s \<longrightarrow> calloc_ok e \<longrightarrow>
        (\<exists>entry. VbLogPrint_helper x e file line function verboseLevel msg s =
           Some (s\<lparr>calloc_calls := calloc_calls s + 1, syslog_out := syslog_out s @ [entry]\<rparr>))
        \<and> (0 < VB_EA_DRIVER_ID_MAX_SIZE x \<longrightarrow>
            (\<exists>entry. VbLogPrintExt_helper x e file line function verboseLevel (Some d) msg s =
               Some (s\<lparr>calloc_calls := calloc_calls s + 1, syslog_out := syslog_out s @ [entry]\<rparr>))))"
  using VbLogPrint_helper_text [of e verboseLevel x "file" line "function" msg]
    VbLogPrintExt_helper_text [of e x verboseLevel "file" line "function" d msg]
  by (auto simp: VbLogPrint_helper_filtered VbLogPrintExt_helper_filtered)

text \<open>The theorem at the sample values: level 2 against threshold 1 is filtered, level 0
  is emitted.\<close>

theorem gate_decides_emission_witness:
  "VbLogPrint_helper sample_externs sample_env (Some ''net.c'') 42 (Some ''doSend'') 2 ''failed: 7''
       sample_state = Some sample_state
   \<and> VbLogPrintExt_helper sample_externs sample_env (Some ''net.c'') 42 (Some ''doSend'') 2
       (Some ''drv0'') ''failed: 7'' sample_state = Some sample_state
   \<and> (\<exists>entry. VbLogPrint_helper sample_externs sample_env (Some ''net.c'') 42 (Some ''doSend'') 0
         ''failed: 7'' sample_state = Some (sample_state\<lparr>calloc_calls := 1, syslog_out := [entry]\<rparr>))
   \<and> (\<exists>entry. VbLogPrintExt_helper sample_externs sample_env (Some ''net.c'') 42 (Some ''doSend'') 0
         (Some ''drv0'') ''failed: 7'' sample_state =
           Some (sample_state\<lparr>calloc_calls := 1, syslog_out := [entry]\<rparr>))"
  using gate_decides_emission [of 2 sample_state sample_externs sample_env "Some ''net.c''" 42
      "Some ''doSend''" "''failed: 7''" "Some ''drv0''" "''drv0''"]
    gate_decides_emission [of 0 sample_state sample_externs sample_env "Some ''net.c''" 42
      "Some ''doSend''" "''failed: 7''" "Some ''drv0''" "''drv0''"]
  by (simp add: sample_state_def sample_env_def sample_externs_def)

text \<open>C1 as stated fails when \<open>calloc\<close> returns the null pointer: level 0 is at most the
  threshold 1, and syslog receives nothing.\<close>

theorem gate_decides_emission_counterexample:
  "(0::nat) \<le> vbLogVerbose sample_state
   \<and> VbLogPrint_helper sample_externs (sample_env\<lparr>calloc_ok := False\<rparr>) (Some ''net.c'') 42
       (Some ''doSend'') 0 ''failed: 7'' sample_state =
         Some (sample_state\<lparr>calloc_calls := 1,
                 stderr_out := ''No memory to allocate log_line (307 bytes)'' @ [CHR 0x0A]\<rparr>)
   \<and> syslog_out (sample_state\<lparr>calloc_calls := 1,
                 stderr_out := ''No memory to allocate log_line (307 bytes)'' @ [CHR 0x0A]\<rparr>) = []"
  by code_simp

subsection \<open>C10: VbLogInit and the threshold\<close>

text \<open>
  C10. \<open>VbLogInit\<close> returns 0 whatever its arguments are and changes nothing but
  \<open>vbLogVerbose\<close>, which becomes the \<open>verboseLevel\<close> argument; the other five arguments
  do not occur in the result. After any sequence of calls that ends with this \<open>VbLogInit\<close>
  followed by plain calls, extended calls and queries only, \<open>VbLogVerboseLevelGet\<close> returns
  that \<open>verboseLevel\<close>.
\<close>

theorem VbLogInit_sets_threshold:
  "fst (VbLogInit queueName verboseLevel outputFolder persLogNumLines persLogVerbose circular s) = 0
   \<and> snd (VbLogInit queueName verboseLevel outputFolder persLogNumLines persLogVerbose circular s)
       = s\<lparr>vbLogVerbose := verboseLevel\<rparr>
   \<and> (\<forall>before after s0 s'.
         run_calls x (before @ [Init queueName verboseLevel outputFolder persLogNumLines
                                  persLogVerbose circular] @ after) s0 = Some s'
         \<longrightarrow> (\<forall>c\<in>set after. \<not> is_Init c)
         \<longrightarrow> VbLogVerboseLevelGet s' = verboseLevel)"
proof (intro conjI allI impI)
  fix before after s0 s'
  assume run: "run_calls x (before @ [Init queueName verboseLevel outputFolder persLogNumLines
                                  persLogVerbose circular] @ after) s0 = Some s'"
    and noinit: "\<forall>c\<in>set after. \<not> is_Init c"
  from run obtain s1 where s1: "run_calls x before s0 = Some s1"
      "run_calls x after (s1\<lparr>vbLogVerbose := verboseLevel\<rparr>) = Some s'"
    by (auto simp: run_calls_append VbLogInit_def split: option.splits)
  from run_calls_threshold [OF s1(2) noinit]
  show "VbLogVerboseLevelGet s' = verboseLevel"
    by (simp add: VbLogVerboseLevelGet_def)
qed (simp_all add: VbLogInit_def)

text \<open>The theorem at the sample values: a threshold of 3 survives an emitted line, a
  failed allocation and a query.\<close>

theorem VbLogInit_sets_threshold_witness:
  "run_calls sample_externs
     ([Init None 0 None 0 0 False] @ [Init (Some ''queue'') 3 None 100 2 True] @
      [Print sample_env (Some ''net.c'') 42 (Some ''doSend'') 0 ''failed: 7'',
       PrintExt (sample_env\<lparr>calloc_ok := False\<rparr>) None 7 None 1 None ''x'', Query]) sample_state
     = Some \<lparr>vbLogVerbose = 3,
              syslog_out = [''[  ERROR][                         net.c][00042][                                  doSend][09:05:59 123ms]failed: 7''],
              stderr_out = ''No memory to allocate log_line (329 bytes)'' @ [CHR 0x0A],
              calloc_calls = 2\<rparr>
   \<and> VbLogVerboseLevelGet \<lparr>vbLogVerbose = 3,
              syslog_out = [''[  ERROR][                         net.c][00042][                                  doSend][09:05:59 123ms]failed: 7''],
              stderr_out = ''No memory to allocate log_line (329 bytes)'' @ [CHR 0x0A],
              calloc_calls = 2\<rparr> = 3"
proof -
  let ?after = "[Print sample_env (Some ''net.c'') 42 (Some ''doSend'') 0 ''failed: 7'',
       PrintExt (sample_env\<lparr>calloc_ok := False\<rparr>) None 7 None 1 None ''x'', Query]"
  let ?s' = "\<lparr>vbLogVerbose = 3,
              syslog_out = [''[  ERROR][                         net.c][00042][                                  doSend][09:05:59 123ms]failed: 7''],
              stderr_out = ''No memory to allocate log_line (329 bytes)'' @ [CHR 0x0A],
              calloc_calls = 2\<rparr>"
  have run: "run_calls sample_externs
     ([Init None 0 None 0 0 False] @ [Init (Some ''queue'') 3 None 100 2 True] @ ?after)
     sample_state = Some ?s'"
    by code_simp
  have noinit: "\<forall>c\<in>set ?after. \<not> is_Init c"
    by simp
  have "VbLogVerboseLevelGet ?s' = 3"
    using VbLogInit_sets_threshold [of "Some ''queue''" 3 None 100 2 True sample_state sample_externs]
      run noinit by blast
  with run
  show ?thesis by simp
qed

subsection \<open>C6: a failed allocation\<close>

text \<open>
  C6. When the level passes the gate and \<open>calloc\<close> returns the null pointer, a plain call
  and an extended call both return normally; they append the diagnostic and a newline to
  stderr (307 bytes for the plain block, the extended entry length plus 1 for the other),
  hand nothing to syslog and leave the threshold as it was. A later call whose level is
  allowed and whose allocation succeeds, plain or extended (driver identifier not null,
  identifier size not 0), hands syslog the same entry after either failure as it would
  have without it.
\<close>

theorem allocation_failure_is_local:
  assumes "verboseLevel \<le> vbLogVerbose s" and "\<not> calloc_ok e"
  shows "\<exists>s1 s2.
           VbLogPrint_helper x e file line function verboseLevel msg s = Some s1
         \<and> VbLogPrintExt_helper x e file line function verboseLevel driverId msg s = Some s2
         \<and> stderr_out s1 = stderr_out s @ ''No memory to allocate log_line (307 bytes)'' @ [CHR 0x0A]
         \<and> stderr_out s2 = stderr_out s @ ''No memory to allocate log_line (''
                              @ fmt_d (int (VB_LOG_EXT_ENTRY_LEN x + 1)) @ '' bytes)'' @ [CHR 0x0A]
         \<and> syslog_out s1 = syslog_out s \<and> syslog_out s2 = syslog_out s
         \<and> vbLogVerbose s1 = vbLogVerbose s \<and> vbLogVerbose s2 = vbLogVerbose s
         \<and> (\<forall>e' file' line' function' level' msg'.
               level' \<le> vbLogVerbose s \<longrightarrow> calloc_ok e' \<longrightarrow>
               (\<exists>entry.
                  VbLogPrint_helper x e' file' line' function' level' msg' s =
                    Some (s\<lparr>calloc_calls := calloc_calls s + 1,
                            syslog_out := syslog_out s @ [entry]\<rparr>)
                \<and> VbLogPrint_helper x e' file' line' function' level' msg' s1 =
                    Some (s1\<lparr>calloc_calls := calloc_calls s1 + 1,
                             syslog_out := syslog_out s1 @ [entry]\<rparr>)
                \<and> VbLogPrint_helper x e' file' line' function' level' msg' s2 =
                    Some (s2\<lparr>calloc_calls := calloc_calls s2 + 1,
                             syslog_out := syslog_out s2 @ [entry]\<rparr>)))
         \<and> (\<forall>e' file' line' function' level' d' msg'.
               level' \<le> vbLogVerbose s \<longrightarrow> calloc_ok e' \<longrightarrow> 0 < VB_EA_DRIVER_ID_MAX_SIZE x \<longrightarrow>
               (\<exists>entry.
                  VbLogPrintExt_helper x e' file' line' function' level' (Some d') msg' s =
                    Some (s\<lparr>calloc_calls := calloc_calls s + 1,
                            syslog_out := syslog_out s @ [entry]\<rparr>)
                \<and> VbLogPrintExt_helper x e' file' line' function' level' (Some d') msg' s1 =
                    Some (s1\<lparr>calloc_calls := calloc_calls s1 + 1,
                             syslog_out := syslog_out s1 @ [entry]\<rparr>)
                \<and> VbLogPrintExt_helper x e' file' line' function' level' (Some d') msg' s2 =
                    Some (s2\<lparr>calloc_calls := calloc_calls s2 + 1,
                             syslog_out := syslog_out s2 @ [entry]\<rparr>)))"
proof -
  let ?s1 = "s\<lparr>calloc_calls := calloc_calls s + 1,
                 stderr_out := stderr_out s @ ''No memory to allocate log_line (307 bytes)''
                                 @ [CHR 0x0A]\<rparr>"
  let ?s2 = "s\<lparr>calloc_calls := calloc_calls s + 1,
                 stderr_out := stderr_out s @ ''No memory to allocate log_line (''
                      @ fmt_d (int (VB_LOG_EXT_ENTRY_LEN x + 1)) @ '' bytes)'' @ [CHR 0x0A]\<rparr>"
  have p: "VbLogPrint_helper x e file line function verboseLevel msg s = Some ?s1"
    using assms by (rule VbLogPrint_helper_nomem)
  have q: "VbLogPrintExt_helper x e file line function verboseLevel driverId msg s = Some ?s2"
    using assms by (rule VbLogPrintExt_helper_nomem)
  have later: "\<exists>entry.
                  VbLogPrint_helper x e' file' line' function' level' msg' s =
                    Some (s\<lparr>calloc_calls := calloc_calls s + 1,
                            syslog_out := syslog_out s @ [entry]\<rparr>)
                \<and> VbLogPrint_helper x e' file' line' function' level' msg' ?s1 =
                    Some (?s1\<lparr>calloc_calls := calloc_calls ?s1 + 1,
                             syslog_out := syslog_out ?s1 @ [entry]\<rparr>)
                \<and> VbLogPrint_helper x e' file' line' function' level' msg' ?s2 =
                    Some (?s2\<lparr>calloc_calls := calloc_calls ?s2 + 1,
                             syslog_out := syslog_out ?s2 @ [entry]\<rparr>)"
    if "level' \<le> vbLogVerbose s" and "calloc_ok e'" for e' file' line' function' level' msg'
  proof -
    from VbLogPrint_helper_text [OF that(2), of level' x file' line' function' msg']
    obtain entry where entry: "\<And>t. level' \<le> vbLogVerbose t \<Longrightarrow>
        VbLogPrint_helper x e' file' line' function' level' msg' t =
          Some (t\<lparr>calloc_calls := calloc_calls t + 1, syslog_out := syslog_out t @ [entry]\<rparr>)"
      by blast
    from that(1) have "level' \<le> vbLogVerbose ?s1" and "level' \<le> vbLogVerbose ?s2" by simp_all
    with that(1) show ?thesis
      using entry [of s] entry [of ?s1] entry [of ?s2] by blast
  qed
  have later_ext: "\<exists>entry.
                  VbLogPrintExt_helper x e' file' line' function' level' (Some d') msg' s =
                    Some (s\<lparr>calloc_calls := calloc_calls s + 1,
                            syslog_out := syslog_out s @ [entry]\<rparr>)
                \<and> VbLogPrintExt_helper x e' file' line' function' level' (Some d') msg' ?s1 =
                    Some (?s1\<lparr>calloc_calls := calloc_calls ?s1 + 1,
                             syslog_out := syslog_out ?s1 @ [entry]\<rparr>)
                \<and> VbLogPrintExt_helper x e' file' line' function' level' (Some d') msg' ?s2 =
                    Some (?s2\<lparr>calloc_calls := calloc_calls ?s2 + 1,
                             syslog_out := syslog_out ?s2 @ [entry]\<rparr>)"
    if "level' \<le> vbLogVerbose s" and "calloc_ok e'" and "0 < VB_EA_DRIVER_ID_MAX_SIZE x"
    for e' file' line' function' level' d' msg'
  proof -
    from VbLogPrintExt_helper_text [OF that(2,3), of level' file' line' function' d' msg']
    obtain entry where entry: "\<And>t. level' \<le> vbLogVerbose t \<Longrightarrow>
        VbLogPrintExt_helper x e' file' line' function' level' (Some d') msg' t =
          Some (t\<lparr>calloc_calls := calloc_calls t + 1, syslog_out := syslog_out t @ [entry]\<rparr>)"
      by blast
    from that(1) have "level' \<le> vbLogVerbose ?s1" and "level' \<le> vbLogVerbose ?s2" by simp_all
    with that(1) show ?thesis
      using entry [of s] entry [of ?s1] entry [of ?s2] by blast
  qed
  show ?thesis
    apply (rule exI [of _ ?s1], rule exI [of _ ?s2])
    using p q later later_ext by simp
qed

text \<open>The theorem at the sample values: the allocation for a level 0 message fails, and
  the next calls, plain and extended at level 1, are emitted.\<close>

theorem allocation_failure_is_local_witness:
  "VbLogPrint_helper sample_externs (sample_env\<lparr>calloc_ok := False\<rparr>) (Some ''net.c'') 42
       (Some ''doSend'') 0 ''failed: 7'' sample_state =
     Some (sample_state\<lparr>calloc_calls := 1,
             stderr_out := ''No memory to allocate log_line (307 bytes)'' @ [CHR 0x0A]\<rparr>)
   \<and> (\<exists>entry.
         VbLogPrint_helper sample_externs sample_env (Some ''net.c'') 43 (Some ''doSend'') 1
           ''retry'' sample_state = Some (sample_state\<lparr>calloc_calls := 1, syslog_out := [entry]\<rparr>)
       \<and> VbLogPrint_helper sample_externs sample_env (Some ''net.c'') 43 (Some ''doSend'') 1
           ''retry''
           (sample_state\<lparr>calloc_calls := 1,
              stderr_out := ''No memory to allocate log_line (307 bytes)'' @ [CHR 0x0A]\<rparr>)
         = Some (sample_state\<lparr>calloc_calls := 2,
                   stderr_out := ''No memory to allocate log_line (307 bytes)'' @ [CHR 0x0A],
                   syslog_out := [entry]\<rparr>))
   \<and> (\<exists>entry.
         VbLogPrintExt_helper sample_externs sample_env (Some ''net.c'') 43 (Some ''doSend'') 1
           (Some ''drv0'') ''retry'' sample_state =
             Some (sample_state\<lparr>calloc_calls := 1, syslog_out := [entry]\<rparr>)
       \<and> VbLogPrintExt_helper sample_externs sample_env (Some ''net.c'') 43 (Some ''doSend'') 1
           (Some ''drv0'') ''retry''
           (sample_state\<lparr>calloc_calls := 1,
              stderr_out := ''No memory to allocate log_line (307 bytes)'' @ [CHR 0x0A]\<rparr>)
         = Some (sample_state\<lparr>calloc_calls := 2,
                   stderr_out := ''No memory to allocate log_line (307 bytes)'' @ [CHR 0x0A],
                   syslog_out := [entry]\<rparr>))
   \<and> (\<exists>s2. VbLogPrintExt_helper sample_externs (sample_env\<lparr>calloc_ok := False\<rparr>) (Some ''net.c'') 42
               (Some ''doSend'') 0 None ''failed: 7'' sample_state = Some s2
            \<and> stderr_out s2 = ''No memory to allocate log_line (329 bytes)'' @ [CHR 0x0A]
            \<and> syslog_out s2 = [] \<and> vbLogVerbose s2 = 1)"
proof -
  have gate: "(0::nat) \<le> vbLogVerbose sample_state" "(1::nat) \<le> vbLogVerbose sample_state"
    and nomem: "\<not> calloc_ok (sample_env\<lparr>calloc_ok := False\<rparr>)" and mem: "calloc_ok sample_env"
    and size: "0 < VB_EA_DRIVER_ID_MAX_SIZE sample_externs"
    by (simp_all add: sample_state_def sample_env_def sample_externs_def)
  have first: "VbLogPrint_helper sample_externs (sample_env\<lparr>calloc_ok := False\<rparr>) (Some ''net.c'') 42
       (Some ''doSend'') 0 ''failed: 7'' sample_state =
     Some (sample_state\<lparr>calloc_calls := 1,
             stderr_out := ''No memory to allocate log_line (307 bytes)'' @ [CHR 0x0A]\<rparr>)"
    by code_simp
  have bytes: "fmt_d (int (VB_LOG_EXT_ENTRY_LEN sample_externs + 1)) = ''329''"
    by code_simp
  from allocation_failure_is_local [OF gate(1) nomem, of sample_externs "Some ''net.c''" 42
      "Some ''doSend''" "''failed: 7''" None]
  obtain s1 s2 where p: "VbLogPrint_helper sample_externs (sample_env\<lparr>calloc_ok := False\<rparr>)
        (Some ''net.c'') 42 (Some ''doSend'') 0 ''failed: 7'' sample_state = Some s1"
    and q: "VbLogPrintExt_helper sample_externs (sample_env\<lparr>calloc_ok := False\<rparr>)
        (Some ''net.c'') 42 (Some ''doSend'') 0 None ''failed: 7'' sample_state = Some s2"
      "stderr_out s2 = stderr_out sample_state @ ''No memory to allocate log_line (''
           @ fmt_d (int (VB_LOG_EXT_ENTRY_LEN sample_externs + 1)) @ '' bytes)'' @ [CHR 0x0A]"
      "syslog_out s2 = syslog_out sample_state" "vbLogVerbose s2 = vbLogVerbose sample_state"
    and later: "\<forall>e' file' line' function' level' msg'.
        level' \<le> vbLogVerbose sample_state \<longrightarrow> calloc_ok e' \<longrightarrow>
          (\<exists>entry.
            VbLogPrint_helper sample_externs e' file' line' function' level' msg' sample_state =
              Some (sample_state\<lparr>calloc_calls := calloc_calls sample_state + 1,
                      syslog_out := syslog_out sample_state @ [entry]\<rparr>)
          \<and> VbLogPrint_helper sample_externs e' file' line' function' level' msg' s1 =
              Some (s1\<lparr>calloc_calls := calloc_calls s1 + 1,
                       syslog_out := syslog_out s1 @ [entry]\<rparr>)
          \<and> VbLogPrint_helper sample_externs e' file' line' function' level' msg' s2 =
              Some (s2\<lparr>calloc_calls := calloc_calls s2 + 1,
                       syslog_out := syslog_out s2 @ [entry]\<rparr>))"
    and later_ext: "\<forall>e' file' line' function' level' d' msg'.
        level' \<le> vbLogVerbose sample_state \<longrightarrow> calloc_ok e' \<longrightarrow>
        0 < VB_EA_DRIVER_ID_MAX_SIZE sample_externs \<longrightarrow>
          (\<exists>entry.
            VbLogPrintExt_helper sample_externs e' file' line' function' level' (Some d') msg'
                sample_state =
              Some (sample_state\<lparr>calloc_calls := calloc_calls sample_state + 1,
                      syslog_out := syslog_out sample_state @ [entry]\<rparr>)
          \<and> VbLogPrintExt_helper sample_externs e' file' line' function' level' (Some d') msg' s1 =
              Some (s1\<lparr>calloc_calls := calloc_calls s1 + 1,
                       syslog_out := syslog_out s1 @ [entry]\<rparr>)
          \<and> VbLogPrintExt_helper sample_externs e' file' line' function' level' (Some d') msg' s2 =
              Some (s2\<lparr>calloc_calls := calloc_calls s2 + 1,
                       syslog_out := syslog_out s2 @ [entry]\<rparr>))"
    by (elim exE conjE) (rule that; assumption)
  from p first have s1: "s1 = sample_state\<lparr>calloc_calls := 1,
             stderr_out := ''No memory to allocate log_line (307 bytes)'' @ [CHR 0x0A]\<rparr>"
    by simp
  from later [rule_format, OF gate(2) mem, of "Some ''net.c''" 43 "Some ''doSend''" "''retry''"]
  have "\<exists>entry.
         VbLogPrint_helper sample_externs sample_env (Some ''net.c'') 43 (Some ''doSend'') 1
           ''retry'' sample_state = Some (sample_state\<lparr>calloc_calls := 1, syslog_out := [entry]\<rparr>)
       \<and> VbLogPrint_helper sample_externs sample_env (Some ''net.c'') 43 (Some ''doSend'') 1
           ''retry''
           (sample_state\<lparr>calloc_calls := 1,
              stderr_out := ''No memory to allocate log_line (307 bytes)'' @ [CHR 0x0A]\<rparr>)
         = Some (sample_state\<lparr>calloc_calls := 2,
                   stderr_out := ''No memory to allocate log_line (307 bytes)'' @ [CHR 0x0A],
                   syslog_out := [entry]\<rparr>)"
    unfolding s1 by (simp add: sample_state_def numeral_2_eq_2) blast
  moreover from later_ext [rule_format, OF gate(2) mem size, of "Some ''net.c''" 43 "Some ''doSend''" "''drv0''"
      "''retry''"]
  have "\<exists>entry.
         VbLogPrintExt_helper sample_externs sample_env (Some ''net.c'') 43 (Some ''doSend'') 1
           (Some ''drv0'') ''retry'' sample_state =
             Some (sample_state\<lparr>calloc_calls := 1, syslog_out := [entry]\<rparr>)
       \<and> VbLogPrintExt_helper sample_externs sample_env (Some ''net.c'') 43 (Some ''doSend'') 1
           (Some ''drv0'') ''retry''
           (sample_state\<lparr>calloc_calls := 1,
              stderr_out := ''No memory to allocate log_line (307 bytes)'' @ [CHR 0x0A]\<rparr>)
         = Some (sample_state\<lparr>calloc_calls := 2,
                   stderr_out := ''No memory to allocate log_line (307 bytes)'' @ [CHR 0x0A],
                   syslog_out := [entry]\<rparr>)"
    unfolding s1 by (simp add: sample_state_def numeral_2_eq_2) blast
  moreover from q [unfolded bytes] have "\<exists>s2. VbLogPrintExt_helper sample_externs (sample_env\<lparr>calloc_ok := False\<rparr>)
               (Some ''net.c'') 42 (Some ''doSend'') 0 None ''failed: 7'' sample_state = Some s2
            \<and> stderr_out s2 = ''No memory to allocate log_line (329 bytes)'' @ [CHR 0x0A]
            \<and> syslog_out s2 = [] \<and> vbLogVerbose s2 = 1"
    by (simp add: sample_state_def)
  ultimately show ?thesis using first by simp
qed

subsection \<open>C9: levels at or beyond VB\_LOG\_LAST\<close>

text \<open>
  C9, amended. For a requested level at or beyond \<open>VB_LOG_LAST\<close> and a threshold that is
  a level, that is, below \<open>VB_LOG_LAST\<close>, the plain and the extended call are filtered:
  the state is unchanged (no allocation, no text for syslog, nothing on stderr), whatever
  the other arguments are.
\<close>

theorem level_beyond_sentinel:
  assumes "VB_LOG_LAST x \<le> verboseLevel" and "vbLogVerbose s < VB_LOG_LAST x"
  shows "VbLogPrint_helper x e file line function verboseLevel msg s = Some s
       \<and> VbLogPrintExt_helper x e file line function verboseLevel driverId msg s = Some s"
  using assms by (simp add: VbLogPrint_helper_filtered VbLogPrintExt_helper_filtered)

text \<open>The theorem at the sample values, where \<open>VB_LOG_LAST\<close> is 4: level 4 against
  threshold 1.\<close>

theorem level_beyond_sentinel_witness:
  "VbLogPrint_helper sample_externs sample_env (Some ''net.c'') 42 (Some ''doSend'') 4 ''failed: 7''
       sample_state = Some sample_state
   \<and> VbLogPrintExt_helper sample_externs sample_env (Some ''net.c'') 42 (Some ''doSend'') 4
       (Some ''drv0'') ''failed: 7'' sample_state = Some sample_state"
proof -
  have a: "VB_LOG_LAST sample_externs \<le> 4" "vbLogVerbose sample_state < VB_LOG_LAST sample_externs"
    by (simp_all add: sample_externs_def sample_state_def)
  from level_beyond_sentinel [OF a, of sample_env "Some ''net.c''" 42
      "Some ''doSend''" "''failed: 7''" "Some ''drv0''"]
  show ?thesis .
qed

text \<open>C9 as stated fails for a threshold that is not a level: \<open>VbLogInit\<close> stores
  \<open>VB_LOG_LAST\<close> itself without a test, the comparison of the helper lets a call at that
  level through, and syslog is called.\<close>

theorem level_beyond_sentinel_counterexample:
  "VB_LOG_LAST sample_externs = 4
   \<and> run_calls sample_externs
        [Init None 4 None 0 0 False,
         Print sample_env (Some ''net.c'') 42 (Some ''doSend'') 4 ''failed: 7''] sample_state
      = Some \<lparr>vbLogVerbose = 4, syslog_out = [[]], stderr_out = [], calloc_calls = 1\<rparr>"
  by code_simp

subsection \<open>C5: null file or function name\<close>

text \<open>
  C5, amended. When the file name or the function name is null, no call faults:
  \<open>VbLogHdrBuild\<close> returns with \<open>dst\<close> untouched, so that the whole header is skipped and
  not only the missing field; a plain call returns normally, and so does an extended call
  with a driver identifier that is not null and an identifier size that is not 0. When
  such a call passes the gate and gets its block, it goes on to exactly one call of
  syslog.
\<close>

theorem null_location_skips_header:
  assumes "file = None \<or> function = None"
  shows "VbLogHdrBuild x e dst verboseLevel file line function = Some dst
       \<and> (\<exists>s'. VbLogPrint_helper x e file line function verboseLevel msg s = Some s')
       \<and> (0 < VB_EA_DRIVER_ID_MAX_SIZE x \<longrightarrow>
            (\<exists>s'. VbLogPrintExt_helper x e file line function verboseLevel (Some d) msg s = Some s'))
       \<and> (verboseLevel \<le> vbLogVerbose s \<longrightarrow> calloc_ok e \<longrightarrow>
            (\<exists>entry. VbLogPrint_helper x e file line function verboseLevel msg s =
               Some (s\<lparr>calloc_calls := calloc_calls s + 1, syslog_out := syslog_out s @ [entry]\<rparr>))
          \<and> (0 < VB_EA_DRIVER_ID_MAX_SIZE x \<longrightarrow>
               (\<exists>entry. VbLogPrintExt_helper x e file line function verboseLevel (Some d) msg s =
                  Some (s\<lparr>calloc_calls := calloc_calls s + 1,
                          syslog_out := syslog_out s @ [entry]\<rparr>))))"
proof -
  from assms have skip: "file = None \<or> function = None \<or> \<not> verboseLevel < VB_LOG_LAST x
      \<or> localtime e = None" by auto
  have build: "VbLogHdrBuild x e dst verboseLevel file line function = Some dst"
    using skip by (rule VbLogHdrBuild_skip)
  have plain: "\<exists>s'. VbLogPrint_helper x e file line function verboseLevel msg s = Some s'"
  proof (cases "verboseLevel \<le> vbLogVerbose s")
    case False
    then show ?thesis by (simp add: VbLogPrint_helper_filtered)
  next
    case True
    then show ?thesis
      using VbLogPrint_helper_nomem [OF True] VbLogPrint_helper_skipped [OF True _ skip]
      by (cases "calloc_ok e") auto
  qed
  have ext: "\<exists>s'. VbLogPrintExt_helper x e file line function verboseLevel (Some d) msg s = Some s'"
    if size: "0 < VB_EA_DRIVER_ID_MAX_SIZE x"
  proof (cases "verboseLevel \<le> vbLogVerbose s")
    case False
    then show ?thesis by (simp add: VbLogPrintExt_helper_filtered)
  next
    case True
    then show ?thesis
      using VbLogPrintExt_helper_nomem [OF True] VbLogPrintExt_helper_skipped [OF True _ skip size]
      by (cases "calloc_ok e") auto
  qed
  show ?thesis
    using build plain ext VbLogPrint_helper_skipped [OF _ _ skip]
      VbLogPrintExt_helper_skipped [OF _ _ skip]
    by auto
qed

text \<open>The theorem at the sample values, with a null function name.\<close>

theorem null_location_skips_header_witness:
  "VbLogHdrBuild sample_externs sample_env (replicate 307 NUL) 0 (Some ''net.c'') 42 None
     = Some (replicate 307 NUL)
   \<and> (\<exists>entry. VbLogPrint_helper sample_externs sample_env (Some ''net.c'') 42 None 0 ''failed: 7''
         sample_state = Some (sample_state\<lparr>calloc_calls := 1, syslog_out := [entry]\<rparr>))
   \<and> (\<exists>entry. VbLogPrintExt_helper sample_externs sample_env (Some ''net.c'') 42 None 0
         (Some ''drv0'') ''failed: 7'' sample_state
           = Some (sample_state\<lparr>calloc_calls := 1, syslog_out := [entry]\<rparr>))"
proof -
  have a: "Some ''net.c'' = None \<or> (None :: string option) = None" by simp
  from null_location_skips_header [OF a, of sample_externs sample_env "replicate 307 NUL" 0 42
      "''failed: 7''" sample_state "''drv0''"]
  show ?thesis
    by (simp add: sample_state_def sample_externs_def sample_env_def)
qed

text \<open>C5 as stated fails: with a null file name \<open>VbLogHdrBuild\<close> leaves the block empty,
  so the level, the line number and the function name, which are all present, are not
  produced either. The same call with the file name present is shown for comparison.\<close>

theorem null_location_skips_header_counterexample:
  "map_option cstr (VbLogHdrBuild sample_externs sample_env (replicate 307 NUL) 0 None 42
                      (Some ''doSend'')) = Some []
   \<and> map_option cstr (VbLogHdrBuild sample_externs sample_env (replicate 307 NUL) 0
                        (Some ''net.c'') 42 (Some ''doSend''))
       = Some ''[  ERROR][                         net.c][00042][                                  doSend][09:05:59 123ms]''"
  by code_simp

subsection \<open>C8: the millisecond field\<close>

text \<open>
  C8. The value printed in the millisecond field is at most 999, and its text has exactly
  three characters, for every \<open>tv_usec\<close>: it is the quotient of \<open>tv_usec\<close> by 1000 as
  a 32-bit unsigned number, replaced by 999 when that is 1000 or more. For a clock reading
  that is not negative and whose quotient fits 32 bits (every sub-second reading does) the
  value is the quotient itself clamped to 999, and a quotient of 1000 or more is printed as
  \<open>999\<close>. In the header that \<open>VbLogHdrBuild\<close> builds from a local time with two-digit
  fields, these three characters stand at offset 100 and \<open>ms]\<close> ends the header.
\<close>

theorem millisecond_field_clamped:
  "msec_of usec \<le> 999
   \<and> sint (msec_of usec) = min ((usec sdiv 1000) mod 2 ^ 32) 999
   \<and> length (fmt_0d 3 (sint (msec_of usec))) = 3
   \<and> (0 \<le> usec \<longrightarrow> usec div 1000 < 2 ^ 32 \<longrightarrow>
        sint (msec_of usec) = min (usec div 1000) 999
        \<and> (1000 \<le> usec div 1000 \<longrightarrow> fmt_0d 3 (sint (msec_of usec)) = ''999''))
   \<and> (mode < VB_LOG_LAST x \<longrightarrow> localtime e = Some tmu \<longrightarrow> VB_LOG_MAX_HDR_LEN + 1 \<le> length dst \<longrightarrow>
        0 \<le> tm_hour tmu \<and> tm_hour tmu < 100 \<and> 0 \<le> tm_min tmu \<and> tm_min tmu < 100
          \<and> 0 \<le> tm_sec tmu \<and> tm_sec tmu < 100 \<longrightarrow>
        (\<exists>b. VbLogHdrBuild x e dst mode (Some f) line (Some g) = Some b
             \<and> take 3 (drop 100 (cstr b)) = fmt_0d 3 (sint (msec_of (tv_usec e)))
             \<and> drop 103 (cstr b) = ''ms]''))"
proof (intro conjI impI)
  show "msec_of usec \<le> 999" by (rule msec_of_le)
  show "sint (msec_of usec) = min ((usec sdiv 1000) mod 2 ^ 32) 999"
    by (rule sint_msec_of_general)
  show "length (fmt_0d 3 (sint (msec_of usec))) = 3" by (rule length_msec_field)
next
  assume a: "0 \<le> usec" "usec div 1000 < 2 ^ 32"
  then have "0 \<le> usec div 1000" by simp
  with a show v: "sint (msec_of usec) = min (usec div 1000) 999"
    by (simp add: sint_msec_of_general sdiv_1000_nonneg)
  assume "1000 \<le> usec div 1000"
  with v show "fmt_0d 3 (sint (msec_of usec)) = ''999''"
    by (simp only: fmt_0d_999) (simp add: min_def fmt_0d_999)
next
  assume a: "mode < VB_LOG_LAST x" "localtime e = Some tmu" "VB_LOG_MAX_HDR_LEN + 1 \<le> length dst"
    and t: "0 \<le> tm_hour tmu \<and> tm_hour tmu < 100 \<and> 0 \<le> tm_min tmu \<and> tm_min tmu < 100
          \<and> 0 \<le> tm_sec tmu \<and> tm_sec tmu < 100"
  from VbLogHdrBuild_built_cstr [OF a, of f line g]
  obtain b where b: "VbLogHdrBuild x e dst mode (Some f) line (Some g) = Some b"
      "cstr b = header_text x e tmu mode f line g" by blast
  from t show "\<exists>b. VbLogHdrBuild x e dst mode (Some f) line (Some g) = Some b
             \<and> take 3 (drop 100 (cstr b)) = fmt_0d 3 (sint (msec_of (tv_usec e)))
             \<and> drop 103 (cstr b) = ''ms]''"
    using b by (simp add: header_text_msec)
qed

text \<open>The theorem at 1000000 microseconds (clamped to 999) and at the sample reading of
  123456 microseconds.\<close>

theorem millisecond_field_clamped_witness:
  "sint (msec_of 1000000) = 999
   \<and> fmt_0d 3 (sint (msec_of 1000000)) = ''999''
   \<and> sint (msec_of 123456) = 123
   \<and> (\<exists>b. VbLogHdrBuild sample_externs sample_env (replicate 307 NUL) 0 (Some ''net.c'') 42
             (Some ''doSend'') = Some b
          \<and> take 3 (drop 100 (cstr b)) = ''123'' \<and> drop 103 (cstr b) = ''ms]'')"
proof -
  have f: "fmt_0d 3 (sint (msec_of (tv_usec sample_env))) = ''123''"
    by code_simp
  from millisecond_field_clamped [of 1000000 0 sample_externs sample_env sample_tm
      "replicate 307 NUL" "''net.c''" 42 "''doSend''"]
    millisecond_field_clamped [of 123456 0 sample_externs sample_env sample_tm
      "replicate 307 NUL" "''net.c''" 42 "''doSend''"]
  show ?thesis
    by (simp add: sample_externs_def sample_env_def sample_tm_def log_consts fmt_0d_999 f [unfolded sample_env_def, simplified])
qed

subsection \<open>C7: the length of the header\<close>

text \<open>
  C7. For a file name and a function name that are not null, a level below
  \<open>VB_LOG_LAST\<close> and any local time that \<open>localtime\<close> returns, \<open>VbLogHdrBuild\<close> leaves in
  every block of at least \<open>VB_LOG_MAX_HDR_LEN + 1\<close> bytes the same string, whose length is
  exactly \<open>VB_LOG_MAX_HDR_LEN\<close> = 7 + 30 + 5 + 40 + 24 = 106. The line that the plain helper
  hands to syslog is this header followed, from offset \<open>VB_LOG_MAX_HDR_LEN\<close> on, by the
  first 199 characters of the message; the line of the extended helper starts with the
  same header.
\<close>

theorem header_has_fixed_length:
  assumes "mode < VB_LOG_LAST x" and "localtime e = Some tmu"
  shows "VB_LOG_MAX_HDR_LEN = 7 + 30 + 5 + 40 + 24
       \<and> (\<exists>hdr. length hdr = VB_LOG_MAX_HDR_LEN
            \<and> (\<forall>dst. VB_LOG_MAX_HDR_LEN + 1 \<le> length dst \<longrightarrow>
                  (\<exists>b. VbLogHdrBuild x e dst mode (Some f) line (Some g) = Some b \<and> cstr b = hdr))
            \<and> (mode \<le> vbLogVerbose s \<longrightarrow> calloc_ok e \<longrightarrow>
                  (\<exists>entry. VbLogPrint_helper x e (Some f) line (Some g) mode msg s =
                             Some (s\<lparr>calloc_calls := calloc_calls s + 1,
                                     syslog_out := syslog_out s @ [entry]\<rparr>)
                         \<and> take VB_LOG_MAX_HDR_LEN entry = hdr
                         \<and> drop VB_LOG_MAX_HDR_LEN entry = take (VB_LOG_MAX_LINE_LEN - 1) (cstr msg))
                \<and> (0 < VB_EA_DRIVER_ID_MAX_SIZE x \<longrightarrow>
                     (\<exists>entry. VbLogPrintExt_helper x e (Some f) line (Some g) mode (Some d) msg s =
                                Some (s\<lparr>calloc_calls := calloc_calls s + 1,
                                        syslog_out := syslog_out s @ [entry]\<rparr>)
                            \<and> take VB_LOG_MAX_HDR_LEN entry = hdr))))"
proof -
  let ?hdr = "header_text x e tmu mode f line g"
  have len: "length ?hdr = VB_LOG_MAX_HDR_LEN"
    by (simp add: length_header_text log_consts)
  have build: "\<exists>b. VbLogHdrBuild x e dst mode (Some f) line (Some g) = Some b \<and> cstr b = ?hdr"
    if "VB_LOG_MAX_HDR_LEN + 1 \<le> length dst" for dst
    using VbLogHdrBuild_built_cstr [OF assms that, of f line g] by blast
  have plain: "\<exists>entry. VbLogPrint_helper x e (Some f) line (Some g) mode msg s =
                             Some (s\<lparr>calloc_calls := calloc_calls s + 1,
                                     syslog_out := syslog_out s @ [entry]\<rparr>)
                         \<and> take VB_LOG_MAX_HDR_LEN entry = ?hdr
                         \<and> drop VB_LOG_MAX_HDR_LEN entry = take (VB_LOG_MAX_LINE_LEN - 1) (cstr msg)"
    if "mode \<le> vbLogVerbose s" and "calloc_ok e"
    using VbLogPrint_helper_built [OF that assms, of f line g msg]
    by (intro exI [of _ "?hdr @ take 199 (cstr msg)"]) (simp add: length_header_text log_consts)
  have ext: "\<exists>entry. VbLogPrintExt_helper x e (Some f) line (Some g) mode (Some d) msg s =
                                Some (s\<lparr>calloc_calls := calloc_calls s + 1,
                                        syslog_out := syslog_out s @ [entry]\<rparr>)
                            \<and> take VB_LOG_MAX_HDR_LEN entry = ?hdr"
    if "mode \<le> vbLogVerbose s" and "calloc_ok e" and "0 < VB_EA_DRIVER_ID_MAX_SIZE x"
    using VbLogPrintExt_helper_built [OF that(1,2) assms that(3), of f line g d msg]
    by (intro exI [of _ "?hdr @ take (VB_EA_DRIVER_ID_MAX_SIZE x + 1)
                        (VB_LOG_DRIVER_ID_FMT (take (VB_EA_DRIVER_ID_MAX_SIZE x - 1) (cstr d))) @
                      (if VB_EA_DRIVER_ID_MAX_SIZE x \<le> 21 \<or> VB_EA_DRIVER_ID_MAX_SIZE x - 1 \<le> length (cstr d)
                       then take 199 (cstr msg) else [])"])
      (simp add: length_header_text log_consts)
  have "VB_LOG_MAX_HDR_LEN = 7 + 30 + 5 + 40 + 24"
    by (simp add: log_consts)
  moreover have "\<exists>hdr. length hdr = VB_LOG_MAX_HDR_LEN
            \<and> (\<forall>dst. VB_LOG_MAX_HDR_LEN + 1 \<le> length dst \<longrightarrow>
                  (\<exists>b. VbLogHdrBuild x e dst mode (Some f) line (Some g) = Some b \<and> cstr b = hdr))
            \<and> (mode \<le> vbLogVerbose s \<longrightarrow> calloc_ok e \<longrightarrow>
                  (\<exists>entry. VbLogPrint_helper x e (Some f) line (Some g) mode msg s =
                             Some (s\<lparr>calloc_calls := calloc_calls s + 1,
                                     syslog_out := syslog_out s @ [entry]\<rparr>)
                         \<and> take VB_LOG_MAX_HDR_LEN entry = hdr
                         \<and> drop VB_LOG_MAX_HDR_LEN entry = take (VB_LOG_MAX_LINE_LEN - 1) (cstr msg))
                \<and> (0 < VB_EA_DRIVER_ID_MAX_SIZE x \<longrightarrow>
                     (\<exists>entry. VbLogPrintExt_helper x e (Some f) line (Some g) mode (Some d) msg s =
                                Some (s\<lparr>calloc_calls := calloc_calls s + 1,
                                        syslog_out := syslog_out s @ [entry]\<rparr>)
                            \<and> take VB_LOG_MAX_HDR_LEN entry = hdr)))"
    using len build plain ext by (intro exI [of _ ?hdr]) blast
  ultimately show ?thesis by (rule conjI)
qed

text \<open>The theorem at the sample values.\<close>

theorem header_has_fixed_length_witness:
  "\<exists>hdr. length hdr = 106
     \<and> (\<exists>b. VbLogHdrBuild sample_externs sample_env (replicate 307 NUL) 0 (Some ''net.c'') 42
               (Some ''doSend'') = Some b \<and> cstr b = hdr)
     \<and> (\<exists>entry. VbLogPrint_helper sample_externs sample_env (Some ''net.c'') 42 (Some ''doSend'') 0
                   ''failed: 7'' sample_state =
                     Some (sample_state\<lparr>calloc_calls := 1, syslog_out := [entry]\<rparr>)
               \<and> take 106 entry = hdr \<and> drop 106 entry = ''failed: 7'')
     \<and> (\<exists>entry. VbLogPrintExt_helper sample_externs sample_env (Some ''net.c'') 42
                   (Some ''doSend'') 0 (Some ''drv0'') ''failed: 7'' sample_state =
                     Some (sample_state\<lparr>calloc_calls := 1, syslog_out := [entry]\<rparr>)
               \<and> take 106 entry = hdr)"
proof -
  have a: "0 < VB_LOG_LAST sample_externs" "localtime sample_env = Some sample_tm"
    and g: "(0::nat) \<le> vbLogVerbose sample_state" "calloc_ok sample_env"
      "0 < VB_EA_DRIVER_ID_MAX_SIZE sample_externs"
    and l: "VB_LOG_MAX_HDR_LEN + 1 \<le> length (replicate 307 NUL)"
    by (simp_all add: sample_externs_def sample_env_def sample_state_def log_consts)
  have c: "take (VB_LOG_MAX_LINE_LEN - 1) (cstr ''failed: 7'') = ''failed: 7''"
    by code_simp
  from header_has_fixed_length [OF a, of "''net.c''" 42 "''doSend''" sample_state "''failed: 7''"
      "''drv0''"]
  obtain hdr where h: "length hdr = VB_LOG_MAX_HDR_LEN"
    and b: "\<And>dst. VB_LOG_MAX_HDR_LEN + 1 \<le> length dst \<Longrightarrow>
              \<exists>b. VbLogHdrBuild sample_externs sample_env dst 0 (Some ''net.c'') 42
                     (Some ''doSend'') = Some b \<and> cstr b = hdr"
    and p: "\<exists>entry. VbLogPrint_helper sample_externs sample_env (Some ''net.c'') 42 (Some ''doSend'') 0
                   ''failed: 7'' sample_state =
                     Some (sample_state\<lparr>calloc_calls := calloc_calls sample_state + 1,
                             syslog_out := syslog_out sample_state @ [entry]\<rparr>)
               \<and> take VB_LOG_MAX_HDR_LEN entry = hdr
               \<and> drop VB_LOG_MAX_HDR_LEN entry = take (VB_LOG_MAX_LINE_LEN - 1) (cstr ''failed: 7'')"
    and q: "\<exists>entry. VbLogPrintExt_helper sample_externs sample_env (Some ''net.c'') 42
                   (Some ''doSend'') 0 (Some ''drv0'') ''failed: 7'' sample_state =
                     Some (sample_state\<lparr>calloc_calls := calloc_calls sample_state + 1,
                             syslog_out := syslog_out sample_state @ [entry]\<rparr>)
               \<and> take VB_LOG_MAX_HDR_LEN entry = hdr"
    using g by blast
  from h b [OF l] p q show ?thesis
    unfolding c by (intro exI [of _ hdr]) (simp add: sample_state_def log_consts)
qed

subsection \<open>C2: one entry, never longer than the block allows\<close>

lemma length_take_driver_field:
  assumes "0 < n" and "n \<le> 21"
  shows "length (take (n + 1) (VB_LOG_DRIVER_ID_FMT (take (n - 1) (cstr d)))) = n + 1"
  using assms by (simp add: length_VB_LOG_DRIVER_ID_FMT)

text \<open>
  C2, amended. A plain call that passes the gate and whose allocation succeeds hands
  exactly one text to syslog, and that text is shorter than \<open>VB_LOG_ENTRY_LEN\<close>: the
  header when it is built, and at most 199 characters of the message, which is cut but
  never padded. With the header built the length is 106 plus the length of the message,
  or 106 + 199 when the message is longer. The same holds for an extended call (driver
  identifier not null, identifier size not 0) with \<open>VB_LOG_EXT_ENTRY_LEN\<close>; for an
  identifier size of at most 21 its length is 106, the identifier size plus 1, and the
  message part.
\<close>

theorem one_entry_never_longer:
  assumes "verboseLevel \<le> vbLogVerbose s" and "calloc_ok e"
  shows "(\<exists>entry. VbLogPrint_helper x e file line function verboseLevel msg s =
                    Some (s\<lparr>calloc_calls := calloc_calls s + 1,
                            syslog_out := syslog_out s @ [entry]\<rparr>)
                \<and> length entry < VB_LOG_ENTRY_LEN
                \<and> (file \<noteq> None \<and> function \<noteq> None \<and> verboseLevel < VB_LOG_LAST x
                     \<and> localtime e \<noteq> None \<longrightarrow>
                    length entry = VB_LOG_MAX_HDR_LEN + min (length (cstr msg)) (VB_LOG_MAX_LINE_LEN - 1)))
       \<and> (0 < VB_EA_DRIVER_ID_MAX_SIZE x \<longrightarrow>
            (\<exists>entry. VbLogPrintExt_helper x e file line function verboseLevel (Some d) msg s =
                       Some (s\<lparr>calloc_calls := calloc_calls s + 1,
                               syslog_out := syslog_out s @ [entry]\<rparr>)
                   \<and> length entry < VB_LOG_EXT_ENTRY_LEN x
                   \<and> (file \<noteq> None \<and> function \<noteq> None \<and> verboseLevel < VB_LOG_LAST x
                        \<and> localtime e \<noteq> None \<and> VB_EA_DRIVER_ID_MAX_SIZE x \<le> 21 \<longrightarrow>
                       length entry = VB_LOG_MAX_HDR_LEN + (VB_LOG_MAX_DRIVER_HDR_LEN x - 1)
                                        + min (length (cstr msg)) (VB_LOG_MAX_LINE_LEN - 1))))"
proof (cases "file = None \<or> function = None \<or> \<not> verboseLevel < VB_LOG_LAST x \<or> localtime e = None")
  case True
  have "VbLogPrint_helper x e file line function verboseLevel msg s =
          Some (s\<lparr>calloc_calls := calloc_calls s + 1, syslog_out := syslog_out s @ [[]]\<rparr>)"
    using assms True by (rule VbLogPrint_helper_skipped)
  moreover have "VbLogPrintExt_helper x e file line function verboseLevel (Some d) msg s =
          Some (s\<lparr>calloc_calls := calloc_calls s + 1, syslog_out := syslog_out s @ [[]]\<rparr>)"
    if "0 < VB_EA_DRIVER_ID_MAX_SIZE x"
    using assms True that by (rule VbLogPrintExt_helper_skipped)
  ultimately show ?thesis
    using True by (auto simp: log_consts)
next
  case False
  then obtain f g tmu where fg: "file = Some f" "function = Some g" "localtime e = Some tmu"
    and lv: "verboseLevel < VB_LOG_LAST x" by auto
  let ?N = "VB_EA_DRIVER_ID_MAX_SIZE x"
  let ?H = "header_text x e tmu verboseLevel f line g"
  let ?R = "take (?N + 1) (VB_LOG_DRIVER_ID_FMT (take (?N - 1) (cstr d)))"
  let ?T = "if ?N \<le> 21 \<or> ?N - 1 \<le> length (cstr d) then take 199 (cstr msg) else []"
  have p: "VbLogPrint_helper x e file line function verboseLevel msg s =
          Some (s\<lparr>calloc_calls := calloc_calls s + 1,
                  syslog_out := syslog_out s @ [?H @ take 199 (cstr msg)]\<rparr>)"
    unfolding fg using assms lv fg(3) by (rule VbLogPrint_helper_built)
  have q: "VbLogPrintExt_helper x e file line function verboseLevel (Some d) msg s =
          Some (s\<lparr>calloc_calls := calloc_calls s + 1,
                  syslog_out := syslog_out s @ [?H @ ?R @ ?T]\<rparr>)"
    if "0 < ?N"
    unfolding fg using assms lv fg(3) that by (rule VbLogPrintExt_helper_built)
  have plain: "\<exists>entry. VbLogPrint_helper x e file line function verboseLevel msg s =
                    Some (s\<lparr>calloc_calls := calloc_calls s + 1,
                            syslog_out := syslog_out s @ [entry]\<rparr>)
                \<and> length entry < VB_LOG_ENTRY_LEN
                \<and> (file \<noteq> None \<and> function \<noteq> None \<and> verboseLevel < VB_LOG_LAST x
                     \<and> localtime e \<noteq> None \<longrightarrow>
                    length entry = VB_LOG_MAX_HDR_LEN + min (length (cstr msg)) (VB_LOG_MAX_LINE_LEN - 1))"
    using p by (intro exI [of _ "?H @ take 199 (cstr msg)"])
      (simp add: length_header_text log_consts)
  have ext: "\<exists>entry. VbLogPrintExt_helper x e file line function verboseLevel (Some d) msg s =
                       Some (s\<lparr>calloc_calls := calloc_calls s + 1,
                               syslog_out := syslog_out s @ [entry]\<rparr>)
                   \<and> length entry < VB_LOG_EXT_ENTRY_LEN x
                   \<and> (file \<noteq> None \<and> function \<noteq> None \<and> verboseLevel < VB_LOG_LAST x
                        \<and> localtime e \<noteq> None \<and> VB_EA_DRIVER_ID_MAX_SIZE x \<le> 21 \<longrightarrow>
                       length entry = VB_LOG_MAX_HDR_LEN + (VB_LOG_MAX_DRIVER_HDR_LEN x - 1)
                                        + min (length (cstr msg)) (VB_LOG_MAX_LINE_LEN - 1))"
    if N: "0 < ?N"
  proof -
    have "length ?R \<le> ?N + 1" by simp
    moreover have "length ?T \<le> 199" by simp
    ultimately have "length (?H @ ?R @ ?T) < VB_LOG_EXT_ENTRY_LEN x"
      by (simp add: length_header_text log_consts del: length_take)
    moreover have "length (?H @ ?R @ ?T) = VB_LOG_MAX_HDR_LEN + (VB_LOG_MAX_DRIVER_HDR_LEN x - 1)
                                        + min (length (cstr msg)) (VB_LOG_MAX_LINE_LEN - 1)"
      if "?N \<le> 21"
      using that N length_take_driver_field [OF N that, of d]
      by (simp add: length_header_text log_consts del: length_take) (simp add: min_def)
    ultimately show ?thesis
      using q [OF N] by (intro exI [of _ "?H @ ?R @ ?T"]) simp
  qed
  from plain ext show ?thesis by blast
qed

text \<open>The theorem at the sample values.\<close>

theorem one_entry_never_longer_witness:
  "(\<exists>entry. VbLogPrint_helper sample_externs sample_env (Some ''net.c'') 42 (Some ''doSend'') 0
               ''failed: 7'' sample_state =
                 Some (sample_state\<lparr>calloc_calls := 1, syslog_out := [entry]\<rparr>)
           \<and> length entry < 306 \<and> length entry = 106 + 9)
   \<and> (\<exists>entry. VbLogPrintExt_helper sample_externs sample_env (Some ''net.c'') 42 (Some ''doSend'') 0
               (Some ''drv0'') ''failed: 7'' sample_state =
                 Some (sample_state\<lparr>calloc_calls := 1, syslog_out := [entry]\<rparr>)
           \<and> length entry < 328 \<and> length entry = 106 + 21 + 9)"
proof -
  have g: "(0::nat) \<le> vbLogVerbose sample_state" "calloc_ok sample_env"
    by (simp_all add: sample_state_def sample_env_def)
  have c: "length (cstr ''failed: 7'') = 9"
    by code_simp
  from one_entry_never_longer [OF g, of sample_externs "Some ''net.c''" 42 "Some ''doSend''"
      "''failed: 7''" "''drv0''"]
  show ?thesis
    by (simp add: sample_state_def sample_externs_def sample_env_def log_consts c)
qed

text \<open>C2 as stated fails: the line has 115 characters, not the 306 of
  \<open>VB_LOG_ENTRY_LEN\<close>. Nothing pads the message.\<close>

theorem one_entry_never_longer_counterexample:
  "VB_LOG_ENTRY_LEN = 306
   \<and> VbLogPrint_helper sample_externs sample_env (Some ''net.c'') 42 (Some ''doSend'') 0 ''failed: 7''
       sample_state
     = Some \<lparr>vbLogVerbose = 1,
             syslog_out = [''[  ERROR][                         net.c][00042][                                  doSend][09:05:59 123ms]failed: 7''],
             stderr_out = [], calloc_calls = 1\<rparr>
   \<and> length ''[  ERROR][                         net.c][00042][                                  doSend][09:05:59 123ms]failed: 7'' = 115"
  by code_simp

subsection \<open>C3: names longer than their field\<close>









subsection \<open>C4: the driver identifier field\<close>

text \<open>
  C4, amended. In the line of an extended call that passes the gate, gets its block and
  builds its header, with an identifier size \<open>VB_EA_DRIVER_ID_MAX_SIZE\<close> from 1 to 21, the
  106 characters of the header are followed by the first size plus 1 characters of the
  expansion of \<open>"[%-20s]"\<close> on the first size minus 1 characters of the identifier (the
  identifier left justified and padded with spaces to 20 columns), and then by the
  message. With a size of 20 this is the opening bracket, at most 19 characters of the
  identifier and spaces up to 20 columns, so a 64-character identifier gives 19 copied
  characters and one space, not 64; the bounded write has no room left for the closing
  bracket. With a size of 21 it is the opening bracket, at most 20 characters padded to
  20 columns, and the closing bracket.
\<close>

theorem driver_field_rendering:
  assumes "verboseLevel \<le> vbLogVerbose s" and "calloc_ok e"
    and "verboseLevel < VB_LOG_LAST x" and "localtime e = Some tmu"
    and "0 < VB_EA_DRIVER_ID_MAX_SIZE x" and "VB_EA_DRIVER_ID_MAX_SIZE x \<le> 21"
  shows "\<exists>hdr entry.
           length hdr = VB_LOG_MAX_HDR_LEN
         \<and> (\<exists>b. VbLogHdrBuild x e (replicate (VB_LOG_EXT_ENTRY_LEN x + 1) NUL) verboseLevel
                   (Some f) line (Some g) = Some b \<and> cstr b = hdr)
         \<and> VbLogPrintExt_helper x e (Some f) line (Some g) verboseLevel (Some d) msg s =
             Some (s\<lparr>calloc_calls := calloc_calls s + 1, syslog_out := syslog_out s @ [entry]\<rparr>)
         \<and> entry = hdr @ take (VB_EA_DRIVER_ID_MAX_SIZE x + 1)
                           (VB_LOG_DRIVER_ID_FMT (take (VB_EA_DRIVER_ID_MAX_SIZE x - 1) (cstr d)))
                       @ take (VB_LOG_MAX_LINE_LEN - 1) (cstr msg)
         \<and> length (fmt_ls 20 (take (VB_EA_DRIVER_ID_MAX_SIZE x - 1) (cstr d))) = 20
         \<and> (VB_EA_DRIVER_ID_MAX_SIZE x = 20 \<longrightarrow>
              entry = hdr @ ''['' @ take 19 (cstr d)
                        @ replicate (20 - min 19 (length (cstr d))) CHR '' ''
                        @ take (VB_LOG_MAX_LINE_LEN - 1) (cstr msg))
         \<and> (VB_EA_DRIVER_ID_MAX_SIZE x = 21 \<longrightarrow>
              entry = hdr @ ''['' @ take 20 (cstr d)
                        @ replicate (20 - min 20 (length (cstr d))) CHR '' '' @ '']''
                        @ take (VB_LOG_MAX_LINE_LEN - 1) (cstr msg))"
proof -
  let ?N = "VB_EA_DRIVER_ID_MAX_SIZE x"
  let ?H = "header_text x e tmu verboseLevel f line g"
  let ?E = "?H @ take (?N + 1) (VB_LOG_DRIVER_ID_FMT (take (?N - 1) (cstr d))) @ take 199 (cstr msg)"
  have len: "length ?H = VB_LOG_MAX_HDR_LEN"
    by (simp add: length_header_text log_consts)
  have build: "\<exists>b. VbLogHdrBuild x e (replicate (VB_LOG_EXT_ENTRY_LEN x + 1) NUL) verboseLevel
                   (Some f) line (Some g) = Some b \<and> cstr b = ?H"
    using VbLogHdrBuild_built_cstr [OF assms(3,4), of "replicate (VB_LOG_EXT_ENTRY_LEN x + 1) NUL"
        f line g]
    by (auto simp: log_consts)
  have call: "VbLogPrintExt_helper x e (Some f) line (Some g) verboseLevel (Some d) msg s =
             Some (s\<lparr>calloc_calls := calloc_calls s + 1, syslog_out := syslog_out s @ [?E]\<rparr>)"
    using VbLogPrintExt_helper_built [OF assms(1-5), of f line g d msg] assms(6) by simp
  have pad: "length (fmt_ls 20 (take (?N - 1) (cstr d))) = 20"
    using assms(6) by (simp add: length_fmt_ls)
  have n20: "?E = ?H @ ''['' @ take 19 (cstr d) @ replicate (20 - min 19 (length (cstr d))) CHR '' ''
                    @ take (VB_LOG_MAX_LINE_LEN - 1) (cstr msg)" if "?N = 20"
    using that by (simp add: VB_LOG_DRIVER_ID_FMT_def fmt_ls_def log_consts min_def)
  have n21: "?E = ?H @ ''['' @ take 20 (cstr d) @ replicate (20 - min 20 (length (cstr d))) CHR '' ''
                    @ '']'' @ take (VB_LOG_MAX_LINE_LEN - 1) (cstr msg)" if "?N = 21"
    using that by (auto simp: VB_LOG_DRIVER_ID_FMT_def fmt_ls_def log_consts min_def)
  show ?thesis
    using len build call pad n20 n21
    by (intro exI [of _ ?H] exI [of _ ?E]) (simp add: log_consts)
qed

text \<open>The theorem at the sample values (identifier size 20) with an identifier of 64
  characters.\<close>

theorem driver_field_rendering_witness:
  "\<exists>hdr. length hdr = 106
     \<and> VbLogPrintExt_helper sample_externs sample_env (Some ''net.c'') 42 (Some ''doSend'') 0
         (Some ''0123456789abcdefghijklmnopqrstuvwxyzABCDEFGHIJKLMNOPQRSTUVWXYZ01'') ''failed: 7''
         sample_state
       = Some (sample_state\<lparr>calloc_calls := 1,
                 syslog_out := [hdr @ ''[0123456789abcdefghi '' @ ''failed: 7'']\<rparr>)
     \<and> VbLogPrintExt_helper (sample_externs\<lparr>VB_EA_DRIVER_ID_MAX_SIZE := 21\<rparr>) sample_env
         (Some ''net.c'') 42 (Some ''doSend'') 0
         (Some ''0123456789abcdefghijklmnopqrstuvwxyzABCDEFGHIJKLMNOPQRSTUVWXYZ01'') ''failed: 7''
         sample_state
       = Some (sample_state\<lparr>calloc_calls := 1,
                 syslog_out := [hdr @ ''[0123456789abcdefghij]'' @ ''failed: 7'']\<rparr>)"
proof -
  have g: "(0::nat) \<le> vbLogVerbose sample_state" "calloc_ok sample_env"
    "0 < VB_LOG_LAST sample_externs" "localtime sample_env = Some sample_tm"
    "0 < VB_EA_DRIVER_ID_MAX_SIZE sample_externs" "VB_EA_DRIVER_ID_MAX_SIZE sample_externs \<le> 21"
    by (simp_all add: sample_state_def sample_env_def sample_externs_def)
  have c: "cstr ''0123456789abcdefghijklmnopqrstuvwxyzABCDEFGHIJKLMNOPQRSTUVWXYZ01'' =
             ''0123456789abcdefghijklmnopqrstuvwxyzABCDEFGHIJKLMNOPQRSTUVWXYZ01''"
    "cstr ''failed: 7'' = ''failed: 7''"
    by code_simp+
  from driver_field_rendering [OF g, of "''net.c''" 42 "''doSend''"
      "''0123456789abcdefghijklmnopqrstuvwxyzABCDEFGHIJKLMNOPQRSTUVWXYZ01''" "''failed: 7''"]
  obtain hdr entry b where h: "length hdr = VB_LOG_MAX_HDR_LEN"
    and hb: "cstr b = hdr"
      "VbLogHdrBuild sample_externs sample_env (replicate (VB_LOG_EXT_ENTRY_LEN sample_externs + 1) NUL)
        0 (Some ''net.c'') 42 (Some ''doSend'') = Some b"
    and r: "VbLogPrintExt_helper sample_externs sample_env (Some ''net.c'') 42 (Some ''doSend'') 0
         (Some ''0123456789abcdefghijklmnopqrstuvwxyzABCDEFGHIJKLMNOPQRSTUVWXYZ01'') ''failed: 7''
         sample_state
       = Some (sample_state\<lparr>calloc_calls := calloc_calls sample_state + 1,
                 syslog_out := syslog_out sample_state @ [entry]\<rparr>)"
    and e: "VB_EA_DRIVER_ID_MAX_SIZE sample_externs = 20 \<longrightarrow>
              entry = hdr @ ''['' @ take 19 (cstr ''0123456789abcdefghijklmnopqrstuvwxyzABCDEFGHIJKLMNOPQRSTUVWXYZ01'')
                        @ replicate (20 - min 19 (length (cstr ''0123456789abcdefghijklmnopqrstuvwxyzABCDEFGHIJKLMNOPQRSTUVWXYZ01''))) CHR '' ''
                        @ take (VB_LOG_MAX_LINE_LEN - 1) (cstr ''failed: 7'')"
    by blast
  from e have e20: "entry = hdr @ ''[0123456789abcdefghi '' @ ''failed: 7''"
    by (simp add: c sample_externs_def log_consts)
  let ?x21 = "sample_externs\<lparr>VB_EA_DRIVER_ID_MAX_SIZE := 21\<rparr>"
  have g21: "0 < VB_LOG_LAST ?x21" "0 < VB_EA_DRIVER_ID_MAX_SIZE ?x21"
    "VB_EA_DRIVER_ID_MAX_SIZE ?x21 \<le> 21"
    by (simp_all add: sample_externs_def)
  have same: "cstr b = hdr \<Longrightarrow> cstr b' = hdr' \<Longrightarrow>
      VbLogHdrBuild sample_externs sample_env (replicate (VB_LOG_EXT_ENTRY_LEN sample_externs + 1) NUL)
        0 (Some ''net.c'') 42 (Some ''doSend'') = Some b \<Longrightarrow>
      VbLogHdrBuild ?x21 sample_env (replicate (VB_LOG_EXT_ENTRY_LEN ?x21 + 1) NUL)
        0 (Some ''net.c'') 42 (Some ''doSend'') = Some b' \<Longrightarrow> hdr' = hdr" for b b' hdr'
    using VbLogHdrBuild_built_cstr [OF g(3,4), of "replicate (VB_LOG_EXT_ENTRY_LEN sample_externs + 1) NUL"
        "''net.c''" 42 "''doSend''"]
      VbLogHdrBuild_built_cstr [OF g21(1) g(4), of "replicate (VB_LOG_EXT_ENTRY_LEN ?x21 + 1) NUL"
        "''net.c''" 42 "''doSend''"]
    by (simp add: log_consts header_text_def sample_externs_def)
  from driver_field_rendering [OF g(1,2) g21(1) g(4) g21(2,3), of "''net.c''" 42 "''doSend''"
      "''0123456789abcdefghijklmnopqrstuvwxyzABCDEFGHIJKLMNOPQRSTUVWXYZ01''" "''failed: 7''"]
  obtain hdr' entry' b' where h': "cstr b' = hdr'"
      "VbLogHdrBuild ?x21 sample_env (replicate (VB_LOG_EXT_ENTRY_LEN ?x21 + 1) NUL)
        0 (Some ''net.c'') 42 (Some ''doSend'') = Some b'"
    and r': "VbLogPrintExt_helper ?x21 sample_env (Some ''net.c'') 42 (Some ''doSend'') 0
         (Some ''0123456789abcdefghijklmnopqrstuvwxyzABCDEFGHIJKLMNOPQRSTUVWXYZ01'') ''failed: 7''
         sample_state
       = Some (sample_state\<lparr>calloc_calls := calloc_calls sample_state + 1,
                 syslog_out := syslog_out sample_state @ [entry']\<rparr>)"
    and e': "VB_EA_DRIVER_ID_MAX_SIZE ?x21 = 21 \<longrightarrow>
              entry' = hdr' @ ''['' @ take 20 (cstr ''0123456789abcdefghijklmnopqrstuvwxyzABCDEFGHIJKLMNOPQRSTUVWXYZ01'')
                        @ replicate (20 - min 20 (length (cstr ''0123456789abcdefghijklmnopqrstuvwxyzABCDEFGHIJKLMNOPQRSTUVWXYZ01''))) CHR '' ''
                        @ '']'' @ take (VB_LOG_MAX_LINE_LEN - 1) (cstr ''failed: 7'')"
    by blast
  from e' have e21: "entry' = hdr' @ ''[0123456789abcdefghij]'' @ ''failed: 7''"
    by (simp add: c sample_externs_def log_consts)
  have "hdr' = hdr" by (rule same [OF hb(1) h'(1) hb(2) h'(2)])
  with h r e20 r' e21 show ?thesis
    by (intro exI [of _ hdr]) (simp add: sample_state_def log_consts)
qed

text \<open>C4 as stated fails. With a size of 20 the field of a 64-character identifier is
  not closed by a bracket: the message follows the padding space. With a size of 21 the
  bracket is there and 20 characters are copied, not 19. And a call that passes the gate
  with a null function name renders no identifier field at all.\<close>

theorem driver_field_rendering_counterexample:
  "VbLogPrintExt_helper sample_externs sample_env (Some ''net.c'') 42 (Some ''doSend'') 0
       (Some ''0123456789abcdefghijklmnopqrstuvwxyzABCDEFGHIJKLMNOPQRSTUVWXYZ01'') ''failed: 7''
       sample_state
     = Some \<lparr>vbLogVerbose = 1,
             syslog_out = [''[  ERROR][                         net.c][00042][                                  doSend][09:05:59 123ms][0123456789abcdefghi failed: 7''],
             stderr_out = [], calloc_calls = 1\<rparr>
   \<and> VB_EA_DRIVER_ID_MAX_SIZE sample_externs = 20
   \<and> VbLogPrintExt_helper (sample_externs\<lparr>VB_EA_DRIVER_ID_MAX_SIZE := 21\<rparr>) sample_env
       (Some ''net.c'') 42 (Some ''doSend'') 0
       (Some ''0123456789abcdefghijklmnopqrstuvwxyzABCDEFGHIJKLMNOPQRSTUVWXYZ01'') ''failed: 7''
       sample_state
     = Some \<lparr>vbLogVerbose = 1,
             syslog_out = [''[  ERROR][                         net.c][00042][                                  doSend][09:05:59 123ms][0123456789abcdefghij]failed: 7''],
             stderr_out = [], calloc_calls = 1\<rparr>
   \<and> VbLogPrintExt_helper sample_externs sample_env (Some ''net.c'') 42 None 0
       (Some ''0123456789abcdefghijklmnopqrstuvwxyzABCDEFGHIJKLMNOPQRSTUVWXYZ01'') ''failed: 7''
       sample_state
     = Some \<lparr>vbLogVerbose = 1, syslog_out = [[]], stderr_out = [], calloc_calls = 1\<rparr>"
  by code_simp

end
